theory Spec2Isabelle
  imports Main
begin

section \<open>BookSmith: conventions of the embedding\<close>

text \<open>
  The theory follows the TypeScript sources of the application: the service that talks to
  the remote model (\<open>GeminiService\<close>), the root component (\<open>App\<close>), the reader
  (\<open>EBookReader\<close>) and the credential dialog (\<open>ApiKeyModal\<close>).

  \<^item> The remote model, the clock and the browser storage are parameters of the functions
    that use them; what a function does to the outside world is returned as a list of
    events, in the order of the source.
  \<^item> A thrown error is a value: a function that may throw returns \<open>Inl\<close> of the error.
  \<^item> The callbacks handed to the service are recorded as events and are taken to return
    normally.
  \<^item> Strings are ASCII strings; \<open>toLowerCase\<close> and \<open>trim\<close> are the restrictions of
    the JavaScript functions to ASCII.
\<close>

section \<open>JavaScript strings and thrown errors\<close>

text \<open>\<open>str_includes s sub\<close> is \<open>s.includes(sub)\<close>.\<close>

fun startsWith :: "string \<Rightarrow> string \<Rightarrow> bool" where
  "startsWith s [] = True"
| "startsWith [] (p # ps) = False"
| "startsWith (c # cs) (p # ps) = (c = p \<and> startsWith cs ps)"

fun str_includes :: "string \<Rightarrow> string \<Rightarrow> bool" where
  "str_includes [] sub = (sub = [])"
| "str_includes (c # cs) sub = (startsWith (c # cs) sub \<or> str_includes cs sub)"

definition lower_char :: "char \<Rightarrow> char" where
  "lower_char c =
     (case map_of (zip ''ABCDEFGHIJKLMNOPQRSTUVWXYZ'' ''abcdefghijklmnopqrstuvwxyz'') c of
        Some l \<Rightarrow> l
      | None \<Rightarrow> c)"

definition toLowerCase :: "string \<Rightarrow> string" where
  "toLowerCase s = map lower_char s"

definition is_space :: "char \<Rightarrow> bool" where
  "is_space c = (c \<in> set [CHR 0x09, CHR 0x0A, CHR 0x0B, CHR 0x0C, CHR 0x0D, CHR '' ''])"

definition trim :: "string \<Rightarrow> string" where
  "trim s = rev (dropWhile is_space (rev (dropWhile is_space s)))"


text \<open>
  A thrown value is an \<open>Error\<close>-like object: a name, a message and, for the API's
  errors, an HTTP status. \<open>error_toString\<close> is \<open>Error.prototype.toString\<close>.
\<close>

record js_error =
  err_name :: string
  err_message :: string
  err_status :: "int option"

definition new_Error :: "string \<Rightarrow> js_error" where
  "new_Error m = \<lparr>err_name = ''Error'', err_message = m, err_status = None\<rparr>"

definition TypeError :: "string \<Rightarrow> js_error" where
  "TypeError m = \<lparr>err_name = ''TypeError'', err_message = m, err_status = None\<rparr>"

definition error_toString :: "js_error \<Rightarrow> string" where
  "error_toString e =
     (if err_name e = [] then err_message e
      else if err_message e = [] then err_name e
      else err_name e @ '': '' @ err_message e)"

text \<open>A template literal prints a missing property as \<open>undefined\<close>.\<close>

definition interpolate :: "string option \<Rightarrow> string" where
  "interpolate v = (case v of None \<Rightarrow> ''undefined'' | Some s \<Rightarrow> s)"

definition or_empty :: "string option \<Rightarrow> string" where
  "or_empty v = (case v of None \<Rightarrow> [] | Some s \<Rightarrow> s)"

section \<open>GeminiService: objects exchanged with the model\<close>

text \<open>
  The arguments of a \<open>create_ebook\<close> call are an untyped object. A chapter object has the
  properties the tool schema requires (\<open>title\<close>, \<open>outline\<close>, \<open>imageKeyword\<close>) and, once
  the service has rebuilt it, \<open>content\<close>; a property that is absent reads as
  \<open>undefined\<close>, here \<open>None\<close>. The \<open>chapters\<close> property itself may be missing.
\<close>

record js_chapter =
  jc_title :: string
  jc_outline :: "string option"
  jc_imageKeyword :: string
  jc_content :: "string option"
  jc_imageUrl :: "string option"

record book_obj =
  bo_title :: string
  bo_author :: string
  bo_description :: string
  bo_theme :: string
  bo_format :: string
  bo_chapters :: "js_chapter list option"

record KeywordData =
  kd_term :: string
  volume :: string
  competition :: string

record CompetitorInsight =
  ci_name :: string
  marketShare :: int
  strength :: string
  weakness :: string

record MarketData =
  topic :: string
  difficultyScore :: int
  potentialEarnings :: int
  trendData :: "(string \<times> int) list"
  forecastData :: "(string \<times> int) list"
  topKeywords :: "KeywordData list"
  competitorInsights :: "CompetitorInsight list"

text \<open>
  A function call of a response: its arguments follow the declared schema of the tool
  named; the last component is the call's \<open>id\<close>.
\<close>

datatype function_call =
    CreateEBook book_obj "string option"
  | AnalyzeMarket MarketData "string option"
  | EditChapter int string "string option"
  | UnknownCall string "string option"

datatype tool_reply = Result string | Failure string

record function_response =
  fr_name :: string
  fr_response :: tool_reply
  fr_id :: "string option"

datatype chat_message = UserMessage string | ToolResponses "function_response list"

record candidate =
  finishReason :: "string option"

record response =
  resp_candidates :: "candidate list"
  resp_text :: "string option"
  resp_functionCalls :: "function_call list option"

text \<open>
  The prompt of a chapter request is a fixed template with five holes; the record keeps the
  model name and the text put into each hole.
\<close>

record prompt =
  p_model :: string
  p_format :: string
  p_book_title :: string
  p_theme :: string
  p_chapter_title :: string
  p_outline :: string

text \<open>
  What a run does to the outside world, in order: messages sent to the chat, generation
  requests, timed waits, the three callbacks, and the start of the background task (with the
  objects its closure holds under the names \<open>bookData\<close> and \<open>args\<close>).
\<close>

datatype event =
    ChatSend chat_message
  | GenerateContent prompt
  | Wait nat
  | EBookGenerated book_obj
  | MarketAnalyzed MarketData
  | ChapterEdited int string
  | BackgroundStarted book_obj book_obj

text \<open>
  The remote model is a parameter: the outcome of the \<open>n\<close>-th request, given what is
  sent, is either a thrown error or a result.
\<close>

type_synonym chat_api = "nat \<Rightarrow> chat_message \<Rightarrow> js_error + response"
type_synonym generate_api = "nat \<Rightarrow> prompt \<Rightarrow> js_error + string option"

record run =
  outcome :: "js_error + string"
  trace :: "event list"
  requests :: nat

definition prepend :: "event list \<Rightarrow> 'a run_scheme \<Rightarrow> 'a run_scheme" where
  "prepend evs r = r\<lparr>trace := evs @ trace r\<rparr>"

section \<open>GeminiService.generateChapterContent\<close>

definition chapter_prompt :: "string \<Rightarrow> book_obj \<Rightarrow> js_chapter \<Rightarrow> prompt" where
  "chapter_prompt model book chapter =
     \<lparr>p_model = model, p_format = bo_format book, p_book_title = bo_title book,
      p_theme = bo_theme book, p_chapter_title = jc_title chapter,
      p_outline = interpolate (jc_outline chapter)\<rparr>"

definition is_rate_limit :: "js_error \<Rightarrow> bool" where
  "is_rate_limit e = (err_status e = Some 429 \<or> str_includes (error_toString e) ''429'')"

definition failed_placeholder :: "js_chapter \<Rightarrow> string" where
  "failed_placeholder chapter =
     ''(Content generation failed. Outline: '' @ interpolate (jc_outline chapter) @ '')''"

definition retries_placeholder :: "js_chapter \<Rightarrow> string" where
  "retries_placeholder chapter =
     ''(Content generation failed after retries. Outline: ''
       @ interpolate (jc_outline chapter) @ '')''"

text \<open>
  The retry loop of the service in use; \<open>n\<close> counts the generation requests made so far,
  \<open>attempts\<close> is the loop's counter.
\<close>

function generateChapterContent_loop ::
  "generate_api \<Rightarrow> nat \<Rightarrow> prompt \<Rightarrow> js_chapter \<Rightarrow> nat \<Rightarrow> run" where
  "generateChapterContent_loop api n p chapter attempts =
     (if attempts < 3 then
        (case api n p of
           Inr result \<Rightarrow>
             \<lparr>outcome = Inr (or_empty result), trace = [GenerateContent p], requests = Suc n\<rparr>
         | Inl e \<Rightarrow>
             if is_rate_limit e then
               (let waitTime = 2 ^ attempts * 2000
                in prepend [GenerateContent p, Wait waitTime]
                     (generateChapterContent_loop api (Suc n) p chapter (attempts + 1)))
             else
               \<lparr>outcome = Inr (failed_placeholder chapter), trace = [GenerateContent p],
                requests = Suc n\<rparr>)
      else \<lparr>outcome = Inr (retries_placeholder chapter), trace = [], requests = n\<rparr>)"
  by pat_completeness auto
termination
  by (relation "measure (\<lambda>(api, n, p, chapter, attempts). 3 - attempts)") auto

declare generateChapterContent_loop.simps [simp del]

definition generateChapterContent :: "generate_api \<Rightarrow> nat \<Rightarrow> book_obj \<Rightarrow> js_chapter \<Rightarrow> run" where
  "generateChapterContent api n book chapter =
     generateChapterContent_loop api n (chapter_prompt ''gemini-1.5-flash'' book chapter)
       chapter 0"

text \<open>
  The repository holds a second copy of the service, whose \<open>generateChapterContent\<close>
  makes one request to another model and has no retry.
\<close>

definition generateChapterContent_single ::
  "generate_api \<Rightarrow> nat \<Rightarrow> book_obj \<Rightarrow> js_chapter \<Rightarrow> run" where
  "generateChapterContent_single api n book chapter =
     (let p = chapter_prompt ''gemini-2.5-flash'' book chapter
      in case api n p of
           Inr result \<Rightarrow>
             \<lparr>outcome = Inr (or_empty result), trace = [GenerateContent p], requests = Suc n\<rparr>
         | Inl e \<Rightarrow>
             \<lparr>outcome = Inr (failed_placeholder chapter), trace = [GenerateContent p],
              requests = Suc n\<rparr>)"


section \<open>GeminiService.sendMessage\<close>

definition maxAttempts :: nat where
  "maxAttempts = 3"

definition retry_suffix :: string where
  "retry_suffix = '' (Focus on valid JSON. Keep outlines CONCISE.)''"

text \<open>The chapter object that the \<open>create_ebook\<close> handler builds from a chapter of the call.\<close>

definition initial_chapter :: "js_chapter \<Rightarrow> js_chapter" where
  "initial_chapter ch =
     \<lparr>jc_title = jc_title ch, jc_outline = None, jc_imageKeyword = jc_imageKeyword ch,
      jc_content = Some [], jc_imageUrl = None\<rparr>"

text \<open>
  One function call: the callbacks invoked and the response parts pushed. In the
  \<open>create_ebook\<close> branch \<open>bookData\<close> is the object \<open>args\<close> itself, so the assignment
  \<open>bookData.chapters = initialChapters\<close> is also seen through \<open>args\<close>: the closure of
  the background task holds the updated object under both names. A missing \<open>chapters\<close>
  makes \<open>.map\<close> throw inside the inner \<open>try\<close>, whose handler pushes the failure part.
\<close>

fun handle_call :: "function_call \<Rightarrow> event list \<times> function_response list" where
  "handle_call (CreateEBook args cid) =
     (case bo_chapters args of
        None \<Rightarrow>
          ([], [\<lparr>fr_name = ''create_ebook'', fr_response = Failure ''Processing failed'',
                 fr_id = cid\<rparr>])
      | Some chs \<Rightarrow>
          (let initialChapters = map initial_chapter chs;
               bookData = args\<lparr>bo_chapters := Some initialChapters\<rparr>
           in ([EBookGenerated bookData, BackgroundStarted bookData bookData],
               [\<lparr>fr_name = ''create_ebook'',
                 fr_response = Result ''Structure created. Generating content in background.'',
                 fr_id = cid\<rparr>])))"
| "handle_call (AnalyzeMarket d cid) =
     ([MarketAnalyzed d],
      [\<lparr>fr_name = ''analyze_market'', fr_response = Result ''Success'', fr_id = cid\<rparr>])"
| "handle_call (EditChapter chapterIndex newContent cid) =
     ([ChapterEdited chapterIndex newContent],
      [\<lparr>fr_name = ''edit_chapter'', fr_response = Result ''Success'', fr_id = cid\<rparr>])"
| "handle_call (UnknownCall name cid) = ([], [])"

fun handle_calls :: "function_call list \<Rightarrow> event list \<times> function_response list" where
  "handle_calls [] = ([], [])"
| "handle_calls (call # calls) =
     (fst (handle_call call) @ fst (handle_calls calls),
      snd (handle_call call) @ snd (handle_calls calls))"

definition truthy :: "string option \<Rightarrow> bool" where
  "truthy v = (v \<noteq> None \<and> v \<noteq> Some [])"

definition first_finishReason :: "response \<Rightarrow> string option" where
  "first_finishReason r = (case resp_candidates r of [] \<Rightarrow> None | c # cs \<Rightarrow> finishReason c)"

text \<open>The three checks on a response that throw.\<close>

definition response_error :: "response \<Rightarrow> js_error option" where
  "response_error r =
     (if first_finishReason r = Some ''MALFORMED_FUNCTION_CALL''
        then Some (new_Error ''MALFORMED_JSON'')
      else if first_finishReason r = Some ''SAFETY'' then Some (new_Error ''SAFETY_BLOCK'')
      else if \<not> truthy (resp_text r)
                \<and> (resp_functionCalls r = None \<or> resp_functionCalls r = Some [])
        then Some (new_Error ''EMPTY_RESPONSE'')
      else None)"

definition or_default :: "string \<Rightarrow> string" where
  "or_default responseText =
     (if responseText = [] then ''Content generated successfully!'' else responseText)"

text \<open>
  The body of the \<open>try\<close> block: one send of the user's message and, when the response
  carries function calls, their handling and the acknowledgement sent back (whose failure is
  swallowed).
\<close>

definition attempt :: "chat_api \<Rightarrow> nat \<Rightarrow> string \<Rightarrow> run" where
  "attempt chat n finalMessage =
     (case chat n (UserMessage finalMessage) of
        Inl e \<Rightarrow>
          \<lparr>outcome = Inl e, trace = [ChatSend (UserMessage finalMessage)], requests = Suc n\<rparr>
      | Inr response \<Rightarrow>
          (case response_error response of
             Some e \<Rightarrow>
               \<lparr>outcome = Inl e, trace = [ChatSend (UserMessage finalMessage)],
                requests = Suc n\<rparr>
           | None \<Rightarrow>
               (let responseText = or_empty (resp_text response);
                    calls = (case resp_functionCalls response of None \<Rightarrow> [] | Some cs \<Rightarrow> cs);
                    evs = fst (handle_calls calls);
                    functionResponseParts = snd (handle_calls calls)
                in if functionResponseParts \<noteq> [] then
                     \<lparr>outcome =
                        Inr (or_default
                          (case chat (Suc n) (ToolResponses functionResponseParts) of
                             Inr toolResponse \<Rightarrow>
                               (if truthy (resp_text toolResponse)
                                then responseText @ [CHR 0x0A, CHR 0x0A]
                                       @ or_empty (resp_text toolResponse)
                                else responseText)
                           | Inl e \<Rightarrow> responseText)),
                      trace = ChatSend (UserMessage finalMessage) # evs
                                @ [ChatSend (ToolResponses functionResponseParts)],
                      requests = Suc (Suc n)\<rparr>
                   else
                     \<lparr>outcome = Inr (or_default responseText),
                      trace = ChatSend (UserMessage finalMessage) # evs,
                      requests = Suc n\<rparr>)))"

definition error_text :: "js_error \<Rightarrow> string" where
  "error_text e = (if err_message e \<noteq> [] then err_message e else error_toString e)"

definition is_busy :: "string \<Rightarrow> bool" where
  "is_busy errStr = (str_includes errStr ''429'' \<or> str_includes errStr ''503'')"

definition is_auth :: "string \<Rightarrow> bool" where
  "is_auth errStr = (str_includes errStr ''403'' \<or> str_includes errStr ''key not valid'')"

definition give_up_message :: "string \<Rightarrow> string" where
  "give_up_message lastError =
     ''I encountered an error: '' @ [CHR 0x22] @ lastError @ [CHR 0x22]
       @ ''. Please try asking for fewer chapters (e.g., 5) or a shorter story.''"

record send_run = run +
  final_attempts :: nat

text \<open>
  The \<open>while\<close> loop with its \<open>catch\<close> block. \<open>attempts\<close> and \<open>lastError\<close> are the
  loop's variables, \<open>n\<close> counts the chat requests made so far. A thrown error is the
  outcome \<open>Inl\<close>; \<open>final_attempts\<close> is the value of \<open>attempts\<close> when the call ends.
\<close>

function sendMessage_loop :: "chat_api \<Rightarrow> string \<Rightarrow> nat \<Rightarrow> string \<Rightarrow> nat \<Rightarrow> send_run" where
  "sendMessage_loop chat message attempts lastError n =
     (if attempts < maxAttempts then
        (let finalMessage = (if attempts > 0 then message @ retry_suffix else message);
             a = attempt chat n finalMessage
         in case outcome a of
              Inr responseText \<Rightarrow>
                \<lparr>outcome = Inr responseText, trace = trace a, requests = requests a,
                 final_attempts = attempts\<rparr>
            | Inl error \<Rightarrow>
                (let lastError' = error_text error;
                     errStr = toLowerCase lastError'
                 in if is_busy errStr then
                      prepend (trace a @ [Wait ((attempts + 1) * 2000)])
                        (sendMessage_loop chat message (attempts + 1) lastError' (requests a))
                    else if is_auth errStr then
                      \<lparr>outcome = Inl error, trace = trace a, requests = requests a,
                       final_attempts = attempts\<rparr>
                    else if attempts + 1 \<ge> maxAttempts then
                      \<lparr>outcome = Inr (give_up_message lastError'), trace = trace a,
                       requests = requests a, final_attempts = attempts + 1\<rparr>
                    else
                      prepend (trace a @ [Wait 1500])
                        (sendMessage_loop chat message (attempts + 1) lastError' (requests a))))
      else
        \<lparr>outcome = Inr (give_up_message lastError), trace = [], requests = n,
         final_attempts = attempts\<rparr>)"
  by pat_completeness auto
termination
  by (relation "measure (\<lambda>(chat, message, attempts, lastError, n). maxAttempts - attempts)")
    (auto simp: maxAttempts_def)

declare sendMessage_loop.simps [simp del]

definition sendMessage :: "chat_api \<Rightarrow> string \<Rightarrow> send_run" where
  "sendMessage chat message = sendMessage_loop chat message 0 [] 0"

section \<open>The background generation task\<close>

record task =
  task_error :: "js_error option"
  task_trace :: "event list"
  task_requests :: nat

definition task_prepend :: "event list \<Rightarrow> task \<Rightarrow> task" where
  "task_prepend evs t = t\<lparr>task_trace := evs @ task_trace t\<rparr>"

definition chapters_length :: "book_obj \<Rightarrow> nat" where
  "chapters_length b = (case bo_chapters b of None \<Rightarrow> 0 | Some chs \<Rightarrow> length chs)"

text \<open>\<open>args.chapters[i].outline\<close>: a missing array or element makes the read throw.\<close>

definition arg_outline :: "book_obj \<Rightarrow> nat \<Rightarrow> js_error + string option" where
  "arg_outline args i =
     (case bo_chapters args of
        None \<Rightarrow> Inl (TypeError ''Cannot read properties of undefined'')
      | Some chs \<Rightarrow>
          if i < length chs then Inr (jc_outline (chs ! i))
          else Inl (TypeError ''Cannot read properties of undefined''))"

function background_loop :: "generate_api \<Rightarrow> nat \<Rightarrow> book_obj \<Rightarrow> book_obj \<Rightarrow> nat \<Rightarrow> task" where
  "background_loop api n bookData args i =
     (case bo_chapters bookData of
        None \<Rightarrow>
          \<lparr>task_error = Some (TypeError ''Cannot read properties of undefined''),
           task_trace = [], task_requests = n\<rparr>
      | Some chs \<Rightarrow>
          if i < length chs then
            (let ch = chs ! i;
                 delay = (if i > 0 then [Wait 2000] else [])
             in case arg_outline args i of
                  Inl e \<Rightarrow> \<lparr>task_error = Some e, task_trace = delay, task_requests = n\<rparr>
                | Inr outline \<Rightarrow>
                    (let g = generateChapterContent api n bookData (ch\<lparr>jc_outline := outline\<rparr>)
                     in case outcome g of
                          Inl e \<Rightarrow>
                            \<lparr>task_error = Some e, task_trace = delay @ trace g,
                             task_requests = requests g\<rparr>
                        | Inr content \<Rightarrow>
                            task_prepend (delay @ trace g @ [ChapterEdited (int i) content])
                              (background_loop api (requests g) bookData args (i + 1))))
          else \<lparr>task_error = None, task_trace = [], task_requests = n\<rparr>)"
  by pat_completeness auto
termination
  by (relation "measure (\<lambda>(api, n, bookData, args, i). chapters_length bookData - i)")
    (auto simp: chapters_length_def)

declare background_loop.simps [simp del]

definition background_generation :: "generate_api \<Rightarrow> book_obj \<Rightarrow> book_obj \<Rightarrow> task" where
  "background_generation api bookData args = background_loop api 0 bookData args 0"

section \<open>Observations on a trace\<close>

fun is_user_send :: "event \<Rightarrow> bool" where
  "is_user_send (ChatSend (UserMessage m)) = True"
| "is_user_send e = False"

fun is_generate :: "event \<Rightarrow> bool" where
  "is_generate (GenerateContent p) = True"
| "is_generate e = False"

fun is_delivery :: "event \<Rightarrow> bool" where
  "is_delivery (ChapterEdited i c) = True"
| "is_delivery e = False"

definition user_sends :: "event list \<Rightarrow> nat" where
  "user_sends evs = length (filter is_user_send evs)"

definition generation_requests :: "event list \<Rightarrow> nat" where
  "generation_requests evs = length (filter is_generate evs)"

text \<open>
  The two kinds of response the retry of malformed output is about: the first candidate
  finished with \<open>MALFORMED_FUNCTION_CALL\<close>, or the response has neither text nor
  function calls.
\<close>

definition is_malformed :: "response \<Rightarrow> bool" where
  "is_malformed r = (first_finishReason r = Some ''MALFORMED_FUNCTION_CALL'')"

definition is_empty_response :: "response \<Rightarrow> bool" where
  "is_empty_response r =
     (\<not> truthy (resp_text r) \<and> (resp_functionCalls r = None \<or> resp_functionCalls r = Some []))"

fun generated_books :: "event list \<Rightarrow> book_obj list" where
  "generated_books [] = []"
| "generated_books (EBookGenerated b # es) = b # generated_books es"
| "generated_books (e # es) = generated_books es"

text \<open>
  The trace of the background task cut after each delivery to \<open>onChapterEdited\<close>: one
  block per delivered chapter (and a last block for what follows the last delivery, if
  anything does).
\<close>

fun chapter_blocks :: "event list \<Rightarrow> event list list" where
  "chapter_blocks [] = []"
| "chapter_blocks (e # es) =
     (if is_delivery e then [e] # chapter_blocks es
      else (case chapter_blocks es of [] \<Rightarrow> [e] # [] | b # bs \<Rightarrow> (e # b) # bs))"

text \<open>
  The shape of the block of chapter \<open>i\<close>: the 2000 ms delay unless it is the first
  chapter, the trace of one call of \<open>generateChapterContent\<close> on that chapter, and the
  delivery of what the call returned under the index \<open>i\<close>.
\<close>

definition chapter_block_ok ::
  "generate_api \<Rightarrow> book_obj \<Rightarrow> js_chapter \<Rightarrow> nat \<Rightarrow> event list \<Rightarrow> bool" where
  "chapter_block_ok api b ch i block =
     (\<exists>m body. outcome (generateChapterContent api m b ch) = Inr body
        \<and> block = (if i > 0 then [Wait 2000] else [])
                    @ trace (generateChapterContent api m b ch)
                    @ [ChapterEdited (int i) body])"

text \<open>
  The background tasks a call has started, each with the two objects of its closure, and
  what a task has delivered to \<open>onChapterEdited\<close>.
\<close>

fun background_tasks :: "event list \<Rightarrow> (book_obj \<times> book_obj) list" where
  "background_tasks [] = []"
| "background_tasks (BackgroundStarted bookData args # es) = (bookData, args) # background_tasks es"
| "background_tasks (e # es) = background_tasks es"

fun deliveries :: "event list \<Rightarrow> (int \<times> string) list" where
  "deliveries [] = []"
| "deliveries (ChapterEdited i c # es) = (i, c) # deliveries es"
| "deliveries (e # es) = deliveries es"

section \<open>The book in the application state (types.ts)\<close>

text \<open>
  The records follow the interfaces of the repository's type module. JavaScript strings are
  modelled as HOL strings (ASCII), an optional property as an \<open>option\<close>, and a
  \<open>number\<close> that is only used as an index as an \<open>int\<close>.
\<close>

record Chapter =
  title :: string
  content :: string
  imageKeyword :: string
  imageUrl :: "string option"

record EBook =
  book_title :: string
  author :: string
  description :: string
  theme :: string
  format :: string
  chapters :: "Chapter list"

section \<open>EBookReader: chapter navigation\<close>

text \<open>
  \<open>currentChapter\<close> is a state cell initialised with \<open>-1\<close> (the cover).
  \<open>nextChapter\<close> and \<open>prevChapter\<close> read the cell, test their guard and apply the
  updater \<open>c => c + 1\<close> or \<open>c => c - 1\<close>. The handlers run one per user event, each on
  the state the previous one left; the first argument is \<open>book.chapters.length\<close>.
\<close>

definition initialChapter :: int where
  "initialChapter = - 1"

definition nextChapter :: "nat \<Rightarrow> int \<Rightarrow> int" where
  "nextChapter len currentChapter =
     (if currentChapter < int len - 1 then currentChapter + 1 else currentChapter)"

definition prevChapter :: "nat \<Rightarrow> int \<Rightarrow> int" where
  "prevChapter len currentChapter =
     (if currentChapter > - 1 then currentChapter - 1 else currentChapter)"

datatype nav = Next | Prev

fun navigate :: "nat \<Rightarrow> nav \<Rightarrow> int \<Rightarrow> int" where
  "navigate len Next c = nextChapter len c"
| "navigate len Prev c = prevChapter len c"

fun navigate_all :: "nat \<Rightarrow> nav list \<Rightarrow> int \<Rightarrow> int" where
  "navigate_all len [] c = c"
| "navigate_all len (a # as) c = navigate_all len as (navigate len a c)"

section \<open>App: the chapter-edit callback\<close>

text \<open>
  The third callback given to \<open>sendMessage\<close> updates the book state with
  \<^verbatim>\<open>
  prev => {
    if (!prev) return null;
    const updatedChapters = [...prev.chapters];
    if (updatedChapters[chapterIndex]) {
      updatedChapters[chapterIndex] = { ...updatedChapters[chapterIndex], content: newContent };
    }
    return { ...prev, chapters: updatedChapters };
  }
  \<close>
  Reading an array at an index that is negative or not below its length gives
  \<open>undefined\<close>, which is falsy; a chapter object is always truthy.
\<close>

definition in_bounds :: "'a list \<Rightarrow> int \<Rightarrow> bool" where
  "in_bounds xs i = (0 \<le> i \<and> i < int (length xs))"

definition onChapterEdited_update :: "int \<Rightarrow> string \<Rightarrow> EBook option \<Rightarrow> EBook option" where
  "onChapterEdited_update chapterIndex newContent prev =
     (case prev of
        None \<Rightarrow> None
      | Some b \<Rightarrow>
          (let updatedChapters = chapters b;
               updatedChapters' =
                 (if in_bounds updatedChapters chapterIndex
                  then updatedChapters[nat chapterIndex :=
                         (updatedChapters ! nat chapterIndex)\<lparr>content := newContent\<rparr>]
                  else updatedChapters)
           in Some (b\<lparr>chapters := updatedChapters'\<rparr>)))"

section \<open>ApiKeyModal.validateAndSave\<close>

datatype status = Idle | Validating | Valid | Error

datatype callback = OnSave string | OnClose

datatype modal_effect =
    SetStatus status
  | SetErrorMessage string
  | ValidationRequest string
  | SetTimeout nat "callback list"

record modal_state =
  m_key :: string
  m_status :: status
  m_errorMessage :: string

definition rejection_message :: "string \<Rightarrow> string" where
  "rejection_message errString =
     (if str_includes errString ''403'' \<or> str_includes errString ''permission denied''
        then ''Key rejected. This is usually a billing/project setting.''
      else if str_includes errString ''400'' \<or> str_includes errString ''invalid argument''
        then ''Invalid Key Format.''
      else ''Connection failed. Please check internet.'')"

text \<open>
  The effects of \<open>validateAndSave\<close> in order. \<open>validate\<close> is the remote check of a key:
  \<open>None\<close> when the request succeeds, the thrown error otherwise.
\<close>

definition validateAndSave :: "(string \<Rightarrow> js_error option) \<Rightarrow> modal_state \<Rightarrow> modal_effect list" where
  "validateAndSave validate st =
     (let trimmedKey = trim (m_key st) in
      if trimmedKey = [] then
        [SetErrorMessage ''Please enter an API key.'', SetStatus Error]
      else
        [SetStatus Validating, SetErrorMessage [], ValidationRequest trimmedKey]
        @ (case validate trimmedKey of
             None \<Rightarrow> [SetStatus Valid, SetTimeout 500 [OnSave trimmedKey, OnClose]]
           | Some e \<Rightarrow>
               (let errString = toLowerCase (error_toString e) in
                if str_includes errString ''429'' \<or> str_includes errString ''quota'' then
                  [SetStatus Valid, SetTimeout 500 [OnSave trimmedKey, OnClose]]
                else
                  [SetStatus Error, SetErrorMessage (rejection_message errString)])))"

fun apply_effect :: "modal_state \<Rightarrow> modal_effect \<Rightarrow> modal_state" where
  "apply_effect st (SetStatus s) = st\<lparr>m_status := s\<rparr>"
| "apply_effect st (SetErrorMessage m) = st\<lparr>m_errorMessage := m\<rparr>"
| "apply_effect st (ValidationRequest k) = st"
| "apply_effect st (SetTimeout ms cbs) = st"

definition state_after :: "modal_state \<Rightarrow> modal_effect list \<Rightarrow> modal_state" where
  "state_after st effects = foldl apply_effect st effects"

text \<open>The callbacks that run once the timers set by the effects have fired.\<close>

fun callbacks_fired :: "modal_effect list \<Rightarrow> callback list" where
  "callbacks_fired [] = []"
| "callbacks_fired (SetTimeout ms cbs # es) = cbs @ callbacks_fired es"
| "callbacks_fired (e # es) = callbacks_fired es"

section \<open>JavaScript values and JSON\<close>

text \<open>
  The saved projects go through \<open>JSON.stringify\<close> and \<open>JSON.parse\<close>, which work on
  untyped values. \<open>jsval\<close> are the values the application state holds (an object is the
  list of its properties in insertion order, a \<open>Date\<close> is its time value in milliseconds);
  \<open>json\<close> is a JSON text seen as its syntax tree.
\<close>

datatype jsval =
    VUndefined
  | VNull
  | VBool bool
  | VNum int
  | VStr string
  | VDate int
  | VArr "jsval list"
  | VObj "(string \<times> jsval) list"

datatype json =
    JNull
  | JBool bool
  | JNum int
  | JStr string
  | JArr "json list"
  | JObj "(string \<times> json) list"

definition digit_char :: "int \<Rightarrow> char" where
  "digit_char d = ''0123456789'' ! nat (d mod 10)"

definition pad2 :: "int \<Rightarrow> string" where
  "pad2 v = [digit_char (v div 10), digit_char v]"

definition pad3 :: "int \<Rightarrow> string" where
  "pad3 v = [digit_char (v div 100), digit_char (v div 10), digit_char v]"

definition pad4 :: "int \<Rightarrow> string" where
  "pad4 v = [digit_char (v div 1000), digit_char (v div 100), digit_char (v div 10), digit_char v]"

definition pad6 :: "int \<Rightarrow> string" where
  "pad6 v = [digit_char (v div 100000), digit_char (v div 10000)] @ pad4 v"

text \<open>
  \<open>Date.prototype.toISOString\<close> on a time value: the proleptic Gregorian date of the day
  number, then the time of day, in UTC.
\<close>

definition civil_from_days :: "int \<Rightarrow> int \<times> int \<times> int" where
  "civil_from_days days =
     (let z = days + 719468;
          era = z div 146097;
          doe = z - era * 146097;
          yoe = (doe - doe div 1460 + doe div 36524 - doe div 146096) div 365;
          doy = doe - (365 * yoe + yoe div 4 - yoe div 100);
          mp = (5 * doy + 2) div 153;
          d = doy - (153 * mp + 2) div 5 + 1;
          m = (if mp < 10 then mp + 3 else mp - 9);
          y = yoe + era * 400 + (if m \<le> 2 then 1 else 0)
      in (y, m, d))"

definition toISOString :: "int \<Rightarrow> string" where
  "toISOString t =
     (let (y, m, d) = civil_from_days (t div 86400000);
          ms = t mod 86400000;
          year = (if 0 \<le> y \<and> y \<le> 9999 then pad4 y
                  else if y < 0 then ''-'' @ pad6 (- y) else ''+'' @ pad6 y)
      in year @ ''-'' @ pad2 m @ ''-'' @ pad2 d @ ''T'' @ pad2 (ms div 3600000) @ '':''
           @ pad2 (ms div 60000 mod 60) @ '':'' @ pad2 (ms div 1000 mod 60) @ ''.''
           @ pad3 (ms mod 1000) @ ''Z'')"


text \<open>
  \<open>JSON.stringify\<close>: \<open>undefined\<close> has no JSON text (\<open>None\<close>); inside an array it is
  written as \<open>null\<close>, and a property holding it is left out; a \<open>Date\<close> is written as the
  string its \<open>toJSON\<close> returns.
\<close>

fun JSON_stringify :: "jsval \<Rightarrow> json option" where
  "JSON_stringify VUndefined = None"
| "JSON_stringify VNull = Some JNull"
| "JSON_stringify (VBool b) = Some (JBool b)"
| "JSON_stringify (VNum n) = Some (JNum n)"
| "JSON_stringify (VStr s) = Some (JStr s)"
| "JSON_stringify (VDate t) = Some (JStr (toISOString t))"
| "JSON_stringify (VArr xs) =
     Some (JArr (map (\<lambda>x. case JSON_stringify x of None \<Rightarrow> JNull | Some j \<Rightarrow> j) xs))"
| "JSON_stringify (VObj kvs) =
     Some (JObj (concat (map (\<lambda>(k, v). case JSON_stringify v of None \<Rightarrow> [] | Some j \<Rightarrow> [(k, j)])
                   kvs)))"

fun JSON_parse :: "json \<Rightarrow> jsval" where
  "JSON_parse JNull = VNull"
| "JSON_parse (JBool b) = VBool b"
| "JSON_parse (JNum n) = VNum n"
| "JSON_parse (JStr s) = VStr s"
| "JSON_parse (JArr xs) = VArr (map JSON_parse xs)"
| "JSON_parse (JObj kvs) = VObj (map (\<lambda>(k, j). (k, JSON_parse j)) kvs)"


section \<open>App: saving and loading a project\<close>

text \<open>Typed values as the objects they are at run time.\<close>

datatype Sender = USER | AI

record Message =
  msg_id :: string
  msg_text :: string
  sender :: Sender
  timestamp :: int
  isThinking :: "bool option"

definition optional :: "string \<Rightarrow> jsval option \<Rightarrow> (string \<times> jsval) list" where
  "optional k v = (case v of None \<Rightarrow> [] | Some x \<Rightarrow> [(k, x)])"

definition val_of_Chapter :: "Chapter \<Rightarrow> jsval" where
  "val_of_Chapter c =
     VObj ([(''title'', VStr (title c)), (''imageKeyword'', VStr (imageKeyword c)),
            (''content'', VStr (content c))]
           @ optional ''imageUrl'' (map_option VStr (imageUrl c)))"

definition val_of_EBook :: "EBook \<Rightarrow> jsval" where
  "val_of_EBook b =
     VObj [(''title'', VStr (book_title b)), (''author'', VStr (author b)),
           (''description'', VStr (description b)), (''theme'', VStr (theme b)),
           (''format'', VStr (format b)), (''chapters'', VArr (map val_of_Chapter (chapters b)))]"

definition val_of_Sender :: "Sender \<Rightarrow> jsval" where
  "val_of_Sender s = (case s of USER \<Rightarrow> VStr ''user'' | AI \<Rightarrow> VStr ''model'')"

definition val_of_Message :: "Message \<Rightarrow> jsval" where
  "val_of_Message m =
     VObj ([(''id'', VStr (msg_id m)), (''text'', VStr (msg_text m)),
            (''sender'', val_of_Sender (sender m)), (''timestamp'', VDate (timestamp m))]
           @ optional ''isThinking'' (map_option VBool (isThinking m)))"

text \<open>Reading a property; spreading an array.\<close>

definition get_prop :: "jsval \<Rightarrow> string \<Rightarrow> jsval" where
  "get_prop v k =
     (case v of
        VObj kvs \<Rightarrow> (case map_of kvs k of None \<Rightarrow> VUndefined | Some x \<Rightarrow> x)
      | _ \<Rightarrow> VUndefined)"

definition spread :: "jsval \<Rightarrow> jsval list" where
  "spread v = (case v of VArr xs \<Rightarrow> xs | _ \<Rightarrow> [])"

text \<open>\<open>projects[0]\<close>, the project at the head of the library.\<close>

definition first_project :: "jsval \<Rightarrow> jsval" where
  "first_project v = (case spread v of [] \<Rightarrow> VUndefined | p # ps \<Rightarrow> p)"

definition falsy :: "jsval \<Rightarrow> bool" where
  "falsy v = (v = VUndefined \<or> v = VNull \<or> v = VBool False \<or> v = VNum 0 \<or> v = VStr [])"

function decimal :: "int \<Rightarrow> string" where
  "decimal n =
     (if n < 10 then [digit_char n] else decimal (n div 10) @ [digit_char n])"
  by pat_completeness auto
termination
  by (relation "measure nat") auto

declare decimal.simps [simp del]

definition number_toString :: "int \<Rightarrow> string" where
  "number_toString n = (if n < 0 then ''-'' @ decimal (- n) else decimal n)"

text \<open>
  The part of the application state that saving and loading touch. \<open>storage\<close> is the item
  \<open>booksmith_projects\<close> of the browser's local storage.
\<close>

record app_state =
  generatedBook :: jsval
  messages :: jsval
  marketData :: jsval
  savedProjects :: jsval
  currentMode :: string
  storage :: "json option"

text \<open>\<open>handleSaveProject\<close>, with the clock reading \<open>now\<close> (milliseconds).\<close>

definition handleSaveProject :: "int \<Rightarrow> app_state \<Rightarrow> app_state" where
  "handleSaveProject now st =
     (if \<not> falsy (generatedBook st) then
        (let newProject =
               VObj [(''id'', VStr (number_toString now)),
                     (''name'', get_prop (generatedBook st) ''title''),
                     (''book'', generatedBook st),
                     (''messages'', messages st),
                     (''marketData'', marketData st),
                     (''createdAt'', VNum now)]
         in st\<lparr>savedProjects := VArr (newProject # spread (savedProjects st)),
               messages := VArr (spread (messages st) @
                 [VObj [(''id'', VStr (''save-msg-'' @ number_toString now)),
                        (''text'', VStr ''**Project Saved!**''),
                        (''sender'', VStr ''model''),
                        (''timestamp'', VDate now)]])\<rparr>)
      else st)"

text \<open>The effect that runs whenever \<open>savedProjects\<close> has changed.\<close>

definition persist :: "app_state \<Rightarrow> app_state" where
  "persist st = st\<lparr>storage := JSON_stringify (savedProjects st)\<rparr>"

text \<open>The initial value of \<open>savedProjects\<close> when the application is opened again.\<close>

definition load_savedProjects :: "json option \<Rightarrow> jsval" where
  "load_savedProjects saved = (case saved of None \<Rightarrow> VArr [] | Some j \<Rightarrow> JSON_parse j)"

definition reopen :: "jsval \<Rightarrow> app_state \<Rightarrow> app_state" where
  "reopen welcome st =
     \<lparr>generatedBook = VNull, messages = VArr [welcome], marketData = VNull,
      savedProjects = load_savedProjects (storage st), currentMode = ''chat'',
      storage = storage st\<rparr>"

definition onLoadProject :: "jsval \<Rightarrow> app_state \<Rightarrow> app_state" where
  "onLoadProject p st =
     st\<lparr>generatedBook := get_prop p ''book'', messages := get_prop p ''messages'',
        currentMode := ''preview''\<rparr>"

section \<open>Sample inputs\<close>

definition ch1 :: js_chapter where
  "ch1 = \<lparr>jc_title = ''Intro'', jc_outline = Some ''The hero leaves home.'',
          jc_imageKeyword = ''map'', jc_content = None, jc_imageUrl = None\<rparr>"

definition ch2 :: js_chapter where
  "ch2 = \<lparr>jc_title = ''Road'', jc_outline = Some ''The hero meets a guide.'',
          jc_imageKeyword = ''road'', jc_content = None, jc_imageUrl = None\<rparr>"

definition bk1 :: book_obj where
  "bk1 = \<lparr>bo_title = ''T'', bo_author = ''A'', bo_description = ''D'', bo_theme = ''modern'',
          bo_format = ''novel'', bo_chapters = Some [ch1, ch2]\<rparr>"

definition busy :: js_error where
  "busy = \<lparr>err_name = ''ApiError'', err_message = ''got status: 429 Too Many Requests'',
           err_status = Some 429\<rparr>"

definition malformed :: response where
  "malformed = \<lparr>resp_candidates = [\<lparr>finishReason = Some ''MALFORMED_FUNCTION_CALL''\<rparr>],
     resp_text = None, resp_functionCalls = None\<rparr>"

definition book_response :: response where
  "book_response = \<lparr>resp_candidates = [\<lparr>finishReason = Some ''STOP''\<rparr>],
     resp_text = None, resp_functionCalls = Some [CreateEBook bk1 (Some ''c1'')]\<rparr>"

definition sample_chapters :: "Chapter list" where
  "sample_chapters =
     [\<lparr>title = ''One'', content = [], imageKeyword = ''map'', imageUrl = None\<rparr>,
      \<lparr>title = ''Two'', content = ''old'', imageKeyword = ''chart'', imageUrl = Some ''data:x''\<rparr>]"

definition sample_book :: EBook where
  "sample_book =
     \<lparr>book_title = ''T'', author = ''A'', description = ''D'', theme = ''modern'',
      format = ''novel'', chapters = sample_chapters\<rparr>"

text \<open>Remote behaviours used in the examples.\<close>

definition always_throws :: "js_error \<Rightarrow> chat_api" where
  "always_throws e n m = Inl e"

definition always_responds :: "response \<Rightarrow> chat_api" where
  "always_responds r n m = Inr r"

definition forbidden :: js_error where
  "forbidden = \<lparr>err_name = ''ApiError'', err_message = ''got status: 403 Forbidden'',
                err_status = Some 403\<rparr>"

definition forbidden_busy :: js_error where
  "forbidden_busy =
     \<lparr>err_name = ''ApiError'',
      err_message = ''got status: 403 Forbidden (request 204291)'', err_status = Some 403\<rparr>"

definition empty_response :: response where
  "empty_response = \<lparr>resp_candidates = [\<lparr>finishReason = Some ''STOP''\<rparr>],
     resp_text = None, resp_functionCalls = None\<rparr>"

definition gen_throws_until :: "nat \<Rightarrow> js_error \<Rightarrow> js_error + string option \<Rightarrow> generate_api" where
  "gen_throws_until k e r n p = (if n < k then Inl e else r)"

definition server_error :: js_error where
  "server_error = \<lparr>err_name = ''ApiError'', err_message = ''got status: 500 Internal'',
                   err_status = Some 500\<rparr>"


definition rejects_with :: "js_error \<Rightarrow> string \<Rightarrow> js_error option" where
  "rejects_with e k = Some e"

definition quota_error :: js_error where
  "quota_error =
     \<lparr>err_name = ''ApiError'',
      err_message = ''RESOURCE_EXHAUSTED: You exceeded your current quota'',
      err_status = None\<rparr>"

definition typed_key :: modal_state where
  "typed_key = \<lparr>m_key = '' AIza-123  '', m_status = Idle, m_errorMessage = []\<rparr>"

definition welcome_message :: Message where
  "welcome_message = \<lparr>msg_id = ''welcome'', msg_text = ''Hello!'', sender = AI,
                       timestamp = 0, isThinking = None\<rparr>"

definition working_state :: app_state where
  "working_state =
     \<lparr>generatedBook = val_of_EBook sample_book,
      messages = VArr [val_of_Message welcome_message],
      marketData = VNull, savedProjects = VArr [], currentMode = ''preview'',
      storage = None\<rparr>"

definition saved_and_reloaded :: app_state where
  "saved_and_reloaded =
     (let st = reopen (val_of_Message welcome_message)
                 (persist (handleSaveProject 1700000000000 working_state))
      in onLoadProject (first_project (savedProjects st)) st)"


definition gen_always_throws :: "js_error \<Rightarrow> generate_api" where
  "gen_always_throws e n p = Inl e"

definition rebuilt_bk1 :: book_obj where
  "rebuilt_bk1 = bk1\<lparr>bo_chapters := Some [initial_chapter ch1, initial_chapter ch2]\<rparr>"

section \<open>Bounded retries\<close>

lemma user_sends_append [simp]: "user_sends (xs @ ys) = user_sends xs + user_sends ys"
  by (simp add: user_sends_def)

lemma user_sends_Nil [simp]: "user_sends [] = 0"
  by (simp add: user_sends_def)

lemma user_sends_Cons [simp]:
  "user_sends (e # es) = (if is_user_send e then 1 else 0) + user_sends es"
  by (simp add: user_sends_def)

lemma trace_prepend [simp]: "trace (prepend evs r) = evs @ trace r"
  by (simp add: prepend_def)

lemma outcome_prepend [simp]: "outcome (prepend evs r) = outcome r"
  by (simp add: prepend_def)

lemma final_attempts_prepend [simp]: "final_attempts (prepend evs r) = final_attempts r"
  by (simp add: prepend_def)

lemma requests_prepend [simp]: "requests (prepend evs r) = requests r"
  by (simp add: prepend_def)

lemma handle_call_no_send: "user_sends (fst (handle_call c)) = 0"
  by (cases c) (simp_all add: Let_def split: option.splits)

lemma handle_calls_no_send: "user_sends (fst (handle_calls cs)) = 0"
  by (induction cs) (simp_all add: handle_call_no_send)

lemma attempt_one_send: "user_sends (trace (attempt chat n m)) = 1"
  by (simp add: attempt_def Let_def handle_calls_no_send split: sum.splits option.splits)

lemma sendMessage_loop_sends:
  "user_sends (trace (sendMessage_loop chat msg k lastError n)) \<le> maxAttempts - k"
proof (induction chat msg k lastError n rule: sendMessage_loop.induct)
  case (1 chat msg k lastError n)
  show ?case
  proof (cases "k < maxAttempts")
    case False
    then show ?thesis by (simp add: sendMessage_loop.simps [of chat msg k])
  next
    case True
    define fm where "fm = (if k > 0 then msg @ retry_suffix else msg)"
    define a where "a = attempt chat n fm"
    have one: "user_sends (trace a) = 1" by (simp add: a_def attempt_one_send)
    show ?thesis
    proof (cases "outcome a")
      case (Inr res)
      with True one show ?thesis
        by (simp add: sendMessage_loop.simps [of chat msg k] Let_def
            fm_def [symmetric] a_def [symmetric])
    next
      case (Inl err)
      note IH = "1.IH" [OF True fm_def a_def Inl refl refl]
      show ?thesis
        using True one Inl IH
        by (cases "is_busy (toLowerCase (error_text err))")
          (auto simp add: sendMessage_loop.simps [of chat msg k] Let_def
            fm_def [symmetric] a_def [symmetric])
    qed
  qed
qed


lemma sendMessage_loop_done:
  "\<not> k < maxAttempts \<Longrightarrow>
     sendMessage_loop chat msg k lastError n =
       \<lparr>outcome = Inr (give_up_message lastError), trace = [], requests = n,
        final_attempts = k\<rparr>"
  by (subst sendMessage_loop.simps) simp

lemma sendMessage_loop_attempts:
  "k \<le> maxAttempts \<Longrightarrow> final_attempts (sendMessage_loop chat msg k lastError n) \<le> maxAttempts"
proof (induction chat msg k lastError n rule: sendMessage_loop.induct)
  case (1 chat msg k lastError n)
  show ?case
  proof (cases "k < maxAttempts")
    case False
    with "1.prems" show ?thesis by (simp add: sendMessage_loop_done)
  next
    case True
    define fm where "fm = (if k > 0 then msg @ retry_suffix else msg)"
    define a where "a = attempt chat n fm"
    show ?thesis
    proof (cases "outcome a")
      case (Inr res)
      with True show ?thesis
        by (simp add: sendMessage_loop.simps [of chat msg k] Let_def
            fm_def [symmetric] a_def [symmetric])
    next
      case (Inl err)
      note IH = "1.IH" [OF True fm_def a_def Inl refl refl]
      show ?thesis
        using True Inl IH
        by (cases "is_busy (toLowerCase (error_text err))")
          (auto simp add: sendMessage_loop.simps [of chat msg k] Let_def
            fm_def [symmetric] a_def [symmetric])
    qed
  qed
qed

lemma generation_requests_simps [simp]:
  "generation_requests [] = 0"
  "generation_requests (e # es) = (if is_generate e then 1 else 0) + generation_requests es"
  "generation_requests (xs @ ys) = generation_requests xs + generation_requests ys"
  by (simp_all add: generation_requests_def)

lemma generateChapterContent_loop_requests:
  "generation_requests (trace (generateChapterContent_loop api n p ch k)) \<le> 3 - k"
proof (induction api n p ch k rule: generateChapterContent_loop.induct)
  case (1 api n p ch k)
  show ?case
  proof (cases "k < 3")
    case False
    then show ?thesis by (simp add: generateChapterContent_loop.simps [of api n p ch k])
  next
    case True
    show ?thesis
    proof (cases "api n p")
      case (Inr res)
      with True show ?thesis
        by (simp add: generateChapterContent_loop.simps [of api n p ch k])
    next
      case (Inl e)
      show ?thesis
      proof (cases "is_rate_limit e")
        case False
        with True Inl show ?thesis
          by (simp add: generateChapterContent_loop.simps [of api n p ch k])
      next
        case rl: True
        from "1.IH" [OF True Inl rl refl] True Inl rl show ?thesis
          by (simp add: generateChapterContent_loop.simps [of api n p ch k] Let_def)
      qed
    qed
  qed
qed

text \<open>
  Claim C1. A call of \<open>sendMessage\<close> sends the user's message to the model at most
  \<open>maxAttempts = 3\<close> times, whatever the remote answers or throws, and its attempt
  counter never exceeds 3; a call of \<open>generateChapterContent\<close> issues at most 3
  generation requests.
\<close>

theorem C1_attempts_bounded:
  "maxAttempts = 3
   \<and> user_sends (trace (sendMessage chat msg)) \<le> maxAttempts
   \<and> final_attempts (sendMessage chat msg) \<le> maxAttempts
   \<and> generation_requests (trace (generateChapterContent api n book ch)) \<le> 3"
  using sendMessage_loop_sends [of chat msg 0 "[]" 0]
    sendMessage_loop_attempts [of 0 chat msg "[]" 0]
    generateChapterContent_loop_requests [of api n _ ch 0]
  by (simp add: sendMessage_def generateChapterContent_def maxAttempts_def)

section \<open>Authentication errors end the call\<close>

lemma attempt_failed_trace:
  "outcome (attempt chat n m) = Inl e \<Longrightarrow>
     trace (attempt chat n m) = [ChatSend (UserMessage m)] \<and> requests (attempt chat n m) = Suc n"
  by (auto simp: attempt_def Let_def split: sum.splits option.splits if_splits)

lemma attempt_throws:
  "chat n (UserMessage m) = Inl e \<Longrightarrow> outcome (attempt chat n m) = Inl e"
  by (simp add: attempt_def)

lemma attempt_response_error:
  "chat n (UserMessage m) = Inr r \<Longrightarrow> response_error r = Some e \<Longrightarrow>
     outcome (attempt chat n m) = Inl e"
  by (simp add: attempt_def)

lemma sendMessage_loop_auth:
  assumes "k < maxAttempts"
    and "outcome (attempt chat n (if k > 0 then msg @ retry_suffix else msg)) = Inl e"
    and "\<not> is_busy (toLowerCase (error_text e))"
    and "is_auth (toLowerCase (error_text e))"
  shows "sendMessage_loop chat msg k lastError n =
     \<lparr>outcome = Inl e,
      trace = [ChatSend (UserMessage (if k > 0 then msg @ retry_suffix else msg))],
      requests = Suc n, final_attempts = k\<rparr>"
  using assms attempt_failed_trace [OF assms(2)]
  by (subst sendMessage_loop.simps) (simp add: Let_def)

lemma sendMessage_loop_busy:
  assumes "k < maxAttempts"
    and "outcome (attempt chat n (if k > 0 then msg @ retry_suffix else msg)) = Inl e"
    and "is_busy (toLowerCase (error_text e))"
  shows "sendMessage_loop chat msg k lastError n =
     prepend [ChatSend (UserMessage (if k > 0 then msg @ retry_suffix else msg)),
              Wait ((k + 1) * 2000)]
       (sendMessage_loop chat msg (k + 1) (error_text e) (Suc n))"
  using assms attempt_failed_trace [OF assms(2)]
  by (subst sendMessage_loop.simps) (simp add: Let_def)

lemma sendMessage_loop_retry:
  assumes "k + 1 < maxAttempts"
    and "outcome (attempt chat n (if k > 0 then msg @ retry_suffix else msg)) = Inl e"
    and "\<not> is_busy (toLowerCase (error_text e))"
    and "\<not> is_auth (toLowerCase (error_text e))"
  shows "sendMessage_loop chat msg k lastError n =
     prepend [ChatSend (UserMessage (if k > 0 then msg @ retry_suffix else msg)), Wait 1500]
       (sendMessage_loop chat msg (k + 1) (error_text e) (Suc n))"
  using assms attempt_failed_trace [OF assms(2)]
  by (subst sendMessage_loop.simps) (simp add: Let_def)

lemma sendMessage_loop_give_up:
  assumes "k + 1 = maxAttempts"
    and "outcome (attempt chat n (if k > 0 then msg @ retry_suffix else msg)) = Inl e"
    and "\<not> is_busy (toLowerCase (error_text e))"
    and "\<not> is_auth (toLowerCase (error_text e))"
  shows "sendMessage_loop chat msg k lastError n =
     \<lparr>outcome = Inr (give_up_message (error_text e)),
      trace = [ChatSend (UserMessage (if k > 0 then msg @ retry_suffix else msg))],
      requests = Suc n, final_attempts = k + 1\<rparr>"
  using assms attempt_failed_trace [OF assms(2)]
  by (subst sendMessage_loop.simps) (simp add: Let_def)

lemma sendMessage_loop_success:
  assumes "k < maxAttempts"
    and "outcome (attempt chat n (if k > 0 then msg @ retry_suffix else msg)) = Inr res"
  shows "sendMessage_loop chat msg k lastError n =
     \<lparr>outcome = Inr res,
      trace = trace (attempt chat n (if k > 0 then msg @ retry_suffix else msg)),
      requests = requests (attempt chat n (if k > 0 then msg @ retry_suffix else msg)),
      final_attempts = k\<rparr>"
  using assms
  by (subst sendMessage_loop.simps) (simp add: Let_def)

text \<open>
  Claim C2, as the code has it. If an attempt fails with an error whose lower-cased text
  contains \<open>403\<close> or \<open>key not valid\<close> and contains neither \<open>429\<close> nor
  \<open>503\<close>, \<open>sendMessage\<close> rethrows that error at once: the call ends with the error
  thrown, nothing follows the failed send in the trace (no wait, no further attempt) and the
  attempt counter keeps its value, whatever that value is.
\<close>

theorem C2_auth_error_rethrown:
  assumes "attempts_so_far < maxAttempts"
    and "outcome (attempt chat n
           (if attempts_so_far > 0 then msg @ retry_suffix else msg)) = Inl e"
    and "str_includes (toLowerCase (error_text e)) ''403''
         \<or> str_includes (toLowerCase (error_text e)) ''key not valid''"
    and "\<not> str_includes (toLowerCase (error_text e)) ''429''"
    and "\<not> str_includes (toLowerCase (error_text e)) ''503''"
  shows "sendMessage_loop chat msg attempts_so_far lastError n =
     \<lparr>outcome = Inl e,
      trace = [ChatSend (UserMessage (if attempts_so_far > 0 then msg @ retry_suffix else msg))],
      requests = Suc n, final_attempts = attempts_so_far\<rparr>"
  using assms by (intro sendMessage_loop_auth) (simp_all add: is_busy_def is_auth_def)

lemma forbidden_text: "toLowerCase (error_text forbidden) = ''got status: 403 forbidden''"
  by (simp add: forbidden_def error_text_def toLowerCase_def lower_char_def)

theorem C2_auth_error_rethrown_witness:
  "sendMessage (always_throws forbidden) ''hi'' =
     \<lparr>outcome = Inl forbidden, trace = [ChatSend (UserMessage ''hi'')],
      requests = 1, final_attempts = 0\<rparr>"
  using C2_auth_error_rethrown [of 0 "always_throws forbidden" 0 "''hi''" forbidden "[]"]
  by (simp add: sendMessage_def maxAttempts_def attempt_def always_throws_def forbidden_text)

text \<open>
  Claim C2 as stated fails: the rate-limit test comes first in the \<open>catch\<close> block, so an
  error whose text contains \<open>403\<close> and also \<open>429\<close> is treated as a rate limit: the message is sent
  three times and the error is never rethrown.
\<close>

theorem C2_counterexample:
  "str_includes (toLowerCase (error_text forbidden_busy)) ''403''
   \<and> outcome (sendMessage (always_throws forbidden_busy) ''hi'') \<noteq> Inl forbidden_busy
   \<and> trace (sendMessage (always_throws forbidden_busy) ''hi'') =
       [ChatSend (UserMessage ''hi''), Wait 2000,
        ChatSend (UserMessage (''hi'' @ retry_suffix)), Wait 4000,
        ChatSend (UserMessage (''hi'' @ retry_suffix)), Wait 6000]
   \<and> final_attempts (sendMessage (always_throws forbidden_busy) ''hi'') = 3"
  by code_simp

section \<open>Malformed and empty responses\<close>

lemma response_error_cases:
  "is_malformed r \<or> is_empty_response r \<Longrightarrow>
     response_error r = Some (new_Error ''MALFORMED_JSON'')
     \<or> response_error r = Some (new_Error ''SAFETY_BLOCK'')
     \<or> response_error r = Some (new_Error ''EMPTY_RESPONSE'')"
  by (auto simp: is_malformed_def is_empty_response_def response_error_def)

lemma internal_errors_generic:
  "e = new_Error ''MALFORMED_JSON'' \<or> e = new_Error ''SAFETY_BLOCK''
     \<or> e = new_Error ''EMPTY_RESPONSE'' \<Longrightarrow>
   \<not> is_busy (toLowerCase (error_text e)) \<and> \<not> is_auth (toLowerCase (error_text e))"
  by (auto simp: new_Error_def error_text_def toLowerCase_def lower_char_def is_busy_def
      is_auth_def)

lemma sendMessage_loop_first_event:
  "k < maxAttempts \<Longrightarrow>
     hd (trace (sendMessage_loop chat msg k lastError n)) =
       ChatSend (UserMessage (if k > 0 then msg @ retry_suffix else msg))"
  apply (subst sendMessage_loop.simps)
  apply (simp add: Let_def split: sum.splits)
  apply (auto simp: attempt_def Let_def split: sum.splits option.splits if_splits)
  done

text \<open>
  Claim C8, as the code has it. A malformed or empty response makes the attempt fail with an
  error that is neither a rate-limit nor an authentication error. While fewer than three
  attempts have been made, the call waits 1500 ms and sends again, and what it sends is the
  original message followed by the rephrased instruction; the third failed attempt ends the
  call with the generic message. A call therefore retries at most twice.
\<close>

theorem C8_malformed_or_empty_retried:
  assumes "chat n (UserMessage (if k > 0 then msg @ retry_suffix else msg)) = Inr r"
    and "is_malformed r \<or> is_empty_response r"
  shows "(k + 1 < maxAttempts \<longrightarrow>
            (\<exists>err. sendMessage_loop chat msg k lastError n =
               prepend [ChatSend (UserMessage (if k > 0 then msg @ retry_suffix else msg)),
                        Wait 1500]
                 (sendMessage_loop chat msg (k + 1) err (Suc n)))
            \<and> hd (trace (sendMessage_loop chat msg (k + 1) err' (Suc n))) =
                 ChatSend (UserMessage (msg @ retry_suffix)))
       \<and> (k + 1 = maxAttempts \<longrightarrow>
            (\<exists>err. sendMessage_loop chat msg k lastError n =
               \<lparr>outcome = Inr (give_up_message err),
                trace = [ChatSend (UserMessage (if k > 0 then msg @ retry_suffix else msg))],
                requests = Suc n, final_attempts = maxAttempts\<rparr>))
       \<and> user_sends (trace (sendMessage chat msg)) \<le> 3"
proof -
  let ?fm = "if k > 0 then msg @ retry_suffix else msg"
  from response_error_cases [OF assms(2)] obtain e where
    e: "response_error r = Some e"
    and e_cases: "e = new_Error ''MALFORMED_JSON'' \<or> e = new_Error ''SAFETY_BLOCK''
      \<or> e = new_Error ''EMPTY_RESPONSE''"
    by auto
  have fail: "outcome (attempt chat n ?fm) = Inl e"
    using attempt_response_error [of chat n ?fm r e] assms(1) e by simp
  from internal_errors_generic [OF e_cases]
  have nb: "\<not> is_busy (toLowerCase (error_text e))"
    and na: "\<not> is_auth (toLowerCase (error_text e))" by simp_all
  have retry: "k + 1 < maxAttempts \<Longrightarrow>
      sendMessage_loop chat msg k lastError n =
        prepend [ChatSend (UserMessage ?fm), Wait 1500]
          (sendMessage_loop chat msg (k + 1) (error_text e) (Suc n))"
    using sendMessage_loop_retry [OF _ fail nb na] by simp
  have stop: "k + 1 = maxAttempts \<Longrightarrow>
      sendMessage_loop chat msg k lastError n =
        \<lparr>outcome = Inr (give_up_message (error_text e)), trace = [ChatSend (UserMessage ?fm)],
         requests = Suc n, final_attempts = maxAttempts\<rparr>"
    using sendMessage_loop_give_up [OF _ fail nb na, of lastError] by simp
  have nxt: "k + 1 < maxAttempts \<Longrightarrow>
      hd (trace (sendMessage_loop chat msg (k + 1) err' (Suc n))) =
        ChatSend (UserMessage (msg @ retry_suffix))"
    using sendMessage_loop_first_event [of "k + 1" chat msg err' "Suc n"] by simp
  have bound: "user_sends (trace (sendMessage chat msg)) \<le> 3"
    using sendMessage_loop_sends [of chat msg 0 "[]" 0]
    by (simp add: sendMessage_def maxAttempts_def)
  show ?thesis
    using retry stop nxt bound by blast
qed

theorem C8_malformed_or_empty_retried_witness:
  "always_responds malformed 0 (UserMessage ''hi'') = Inr malformed
   \<and> is_malformed malformed
   \<and> (\<exists>err. sendMessage_loop (always_responds malformed) ''hi'' 0 [] 0 =
          prepend [ChatSend (UserMessage ''hi''), Wait 1500]
            (sendMessage_loop (always_responds malformed) ''hi'' 1 err 1))
   \<and> hd (trace (sendMessage_loop (always_responds malformed) ''hi'' 1 [] 1)) =
        ChatSend (UserMessage (''hi'' @ retry_suffix))"
  using C8_malformed_or_empty_retried
    [of "always_responds malformed" 0 0 "''hi''" malformed "[]" "[]"]
  by (simp add: always_responds_def is_malformed_def malformed_def first_finishReason_def
      maxAttempts_def)

text \<open>
  Claim C8 as stated fails: there is not a single retry. A model that keeps answering with
  malformed output is asked three times, the last two times with the rephrased instruction.
\<close>

theorem C8_counterexample:
  "is_malformed malformed
   \<and> trace (sendMessage (always_responds malformed) ''hi'') =
       [ChatSend (UserMessage ''hi''), Wait 1500,
        ChatSend (UserMessage ''hi (Focus on valid JSON. Keep outlines CONCISE.)''), Wait 1500,
        ChatSend (UserMessage ''hi (Focus on valid JSON. Keep outlines CONCISE.)'')]
   \<and> is_empty_response empty_response
   \<and> user_sends (trace (sendMessage (always_responds empty_response) ''hi'')) = 3"
  by code_simp

section \<open>Chapter generation never throws\<close>

lemma generateChapterContent_loop_returns:
  "\<exists>s. outcome (generateChapterContent_loop api n p ch k) = Inr s"
proof (induction api n p ch k rule: generateChapterContent_loop.induct)
  case (1 api n p ch k)
  show ?case
  proof (cases "k < 3")
    case False
    then show ?thesis by (subst generateChapterContent_loop.simps) simp
  next
    case True
    show ?thesis
    proof (cases "api n p")
      case (Inr res)
      with True show ?thesis by (subst generateChapterContent_loop.simps) simp
    next
      case (Inl e)
      show ?thesis
      proof (cases "is_rate_limit e")
        case False
        with True Inl show ?thesis by (subst generateChapterContent_loop.simps) simp
      next
        case rl: True
        from "1.IH" [OF True Inl rl refl] True Inl rl show ?thesis
          by (subst generateChapterContent_loop.simps) (simp add: Let_def)
      qed
    qed
  qed
qed

lemma generateChapterContent_loop_skip:
  "a + k \<le> 3 \<Longrightarrow> \<forall>j<k. \<exists>e. api (n + j) p = Inl e \<and> is_rate_limit e \<Longrightarrow>
     outcome (generateChapterContent_loop api n p ch a) =
       outcome (generateChapterContent_loop api (n + k) p ch (a + k))"
proof (induction k arbitrary: n a)
  case 0
  then show ?case by simp
next
  case (Suc k)
  from Suc.prems(2) obtain e where e: "api n p = Inl e" "is_rate_limit e"
    by force
  have a: "a < 3" using Suc.prems(1) by simp
  have rest: "\<forall>j<k. \<exists>e. api (Suc n + j) p = Inl e \<and> is_rate_limit e"
    using Suc.prems(2) by (metis Suc_less_eq add_Suc_shift)
  have "outcome (generateChapterContent_loop api n p ch a) =
      outcome (generateChapterContent_loop api (Suc n) p ch (a + 1))"
    using a e by (subst generateChapterContent_loop.simps) (simp add: Let_def)
  also have "\<dots> = outcome (generateChapterContent_loop api (Suc n + k) p ch (a + 1 + k))"
    using Suc.IH [of "a + 1" "Suc n"] Suc.prems(1) rest by simp
  finally show ?case by simp
qed

lemma generateChapterContent_loop_fails:
  "a < 3 \<Longrightarrow> api n p = Inl e \<Longrightarrow> \<not> is_rate_limit e \<Longrightarrow>
     outcome (generateChapterContent_loop api n p ch a) = Inr (failed_placeholder ch)"
  by (subst generateChapterContent_loop.simps) simp

lemma generateChapterContent_loop_exhausted:
  "outcome (generateChapterContent_loop api n p ch 3) = Inr (retries_placeholder ch)"
  by (subst generateChapterContent_loop.simps) simp

text \<open>
  The contract of \<open>generateChapterContent\<close> on its arguments. It always returns a string
  and never throws. If, after \<open>k < 3\<close> rate-limited requests, a request fails with an
  error that is not a rate limit, the result is \<open>(Content generation failed. Outline:
  \<dots>)\<close>; if three requests in a row are rate-limited, it is \<open>(Content generation
  failed after retries. Outline: \<dots>)\<close>; in both the dots are the \<open>outline\<close>
  property of the chapter given to the function, printed as \<open>undefined\<close> when the
  property is absent. The second copy of the function, which makes a single request,
  returns the first placeholder on any failure.
\<close>

lemma generateChapterContent_contract:
  "(\<exists>s. outcome (generateChapterContent api n book ch) = Inr s)
   \<and> (k < 3
        \<and> (\<forall>j<k. \<exists>e'. api (n + j) (chapter_prompt ''gemini-1.5-flash'' book ch) = Inl e'
                      \<and> is_rate_limit e')
        \<and> api (n + k) (chapter_prompt ''gemini-1.5-flash'' book ch) = Inl e
        \<and> \<not> is_rate_limit e
      \<longrightarrow> outcome (generateChapterContent api n book ch) =
            Inr (''(Content generation failed. Outline: '' @ interpolate (jc_outline ch)
                   @ '')''))
   \<and> ((\<forall>j<3. \<exists>e'. api (n + j) (chapter_prompt ''gemini-1.5-flash'' book ch) = Inl e'
                    \<and> is_rate_limit e')
      \<longrightarrow> outcome (generateChapterContent api n book ch) =
            Inr (''(Content generation failed after retries. Outline: ''
                   @ interpolate (jc_outline ch) @ '')''))
   \<and> (jc_outline ch = Some outline \<longrightarrow> interpolate (jc_outline ch) = outline)
   \<and> (\<exists>s. outcome (generateChapterContent_single api n book ch) = Inr s)
   \<and> (api n (chapter_prompt ''gemini-2.5-flash'' book ch) = Inl e
      \<longrightarrow> outcome (generateChapterContent_single api n book ch) =
            Inr (''(Content generation failed. Outline: '' @ interpolate (jc_outline ch)
                   @ '')''))"
proof -
  let ?p = "chapter_prompt ''gemini-1.5-flash'' book ch"
  have total: "\<exists>s. outcome (generateChapterContent api n book ch) = Inr s"
    by (simp add: generateChapterContent_def generateChapterContent_loop_returns)
  have failed: "outcome (generateChapterContent api n book ch) = Inr (failed_placeholder ch)"
    if "k < 3" and "\<forall>j<k. \<exists>e'. api (n + j) ?p = Inl e' \<and> is_rate_limit e'"
      and "api (n + k) ?p = Inl e" and "\<not> is_rate_limit e"
    using generateChapterContent_loop_skip [of 0 k api n ?p ch] that
      generateChapterContent_loop_fails [of k api "n + k" ?p e ch]
    by (simp add: generateChapterContent_def)
  have exhausted:
    "outcome (generateChapterContent api n book ch) = Inr (retries_placeholder ch)"
    if "\<forall>j<3. \<exists>e'. api (n + j) ?p = Inl e' \<and> is_rate_limit e'"
    using generateChapterContent_loop_skip [of 0 3 api n ?p ch] that
      generateChapterContent_loop_exhausted [of api "n + 3" ?p ch]
    by (simp add: generateChapterContent_def)
  have single: "\<exists>s. outcome (generateChapterContent_single api n book ch) = Inr s"
    by (simp add: generateChapterContent_single_def Let_def split: sum.splits)
  have single_failed:
    "outcome (generateChapterContent_single api n book ch) = Inr (failed_placeholder ch)"
    if "api n (chapter_prompt ''gemini-2.5-flash'' book ch) = Inl e"
    using that by (simp add: generateChapterContent_single_def Let_def)
  show ?thesis
    using total failed exhausted single single_failed
    by (simp add: failed_placeholder_def retries_placeholder_def interpolate_def)
qed

lemma generateChapterContent_contract_example:
  "outcome (generateChapterContent (gen_throws_until 1 busy (Inl server_error)) 0 bk1 ch1) =
     Inr ''(Content generation failed. Outline: The hero leaves home.)''
   \<and> outcome (generateChapterContent (gen_throws_until 3 busy (Inl server_error)) 0 bk1 ch1) =
     Inr ''(Content generation failed after retries. Outline: The hero leaves home.)''
   \<and> outcome (generateChapterContent_single
         (gen_throws_until 1 busy (Inl server_error)) 0 bk1 ch1) =
     Inr ''(Content generation failed. Outline: The hero leaves home.)''"
proof -
  let ?api1 = "gen_throws_until 1 busy (Inl server_error)"
  let ?api3 = "gen_throws_until 3 busy (Inl server_error)"
  let ?p = "chapter_prompt ''gemini-1.5-flash'' bk1 ch1"
  have busy: "is_rate_limit busy" and other: "\<not> is_rate_limit server_error"
    by (simp_all add: is_rate_limit_def busy_def server_error_def error_toString_def)
  have h1: "(1::nat) < 3
      \<and> (\<forall>j<1. \<exists>e'. ?api1 (0 + j) ?p = Inl e' \<and> is_rate_limit e')
      \<and> ?api1 (0 + 1) ?p = Inl server_error \<and> \<not> is_rate_limit server_error"
    using busy other by (simp add: gen_throws_until_def)
  have h3: "\<forall>j<3. \<exists>e'. ?api3 (0 + j) ?p = Inl e' \<and> is_rate_limit e'"
    using busy by (simp add: gen_throws_until_def)
  have hs: "?api1 0 (chapter_prompt ''gemini-2.5-flash'' bk1 ch1) = Inl busy"
    by (simp add: gen_throws_until_def)
  have outline: "interpolate (jc_outline ch1) = ''The hero leaves home.''"
    by (simp add: ch1_def interpolate_def)
  from generateChapterContent_contract [of ?api1 0 bk1 ch1 1 server_error] h1
  have w1: "outcome (generateChapterContent ?api1 0 bk1 ch1) =
      Inr (''(Content generation failed. Outline: '' @ interpolate (jc_outline ch1) @ '')'')"
    by blast
  from generateChapterContent_contract [of ?api3 0 bk1 ch1] h3
  have w3: "outcome (generateChapterContent ?api3 0 bk1 ch1) =
      Inr (''(Content generation failed after retries. Outline: ''
             @ interpolate (jc_outline ch1) @ '')'')"
    by blast
  from generateChapterContent_contract [of ?api1 0 bk1 ch1 _ busy] hs
  have ws: "outcome (generateChapterContent_single ?api1 0 bk1 ch1) =
      Inr (''(Content generation failed. Outline: '' @ interpolate (jc_outline ch1) @ '')'')"
    by blast
  show ?thesis
    using w1 w3 ws by (simp add: outline)
qed

section \<open>The book passed to the interface\<close>

lemma in_attempt_trace:
  assumes "chat n (UserMessage m) = Inr r" and "response_error r = None"
    and "resp_functionCalls r = Some calls"
  shows "set (fst (handle_calls calls)) \<subseteq> set (trace (attempt chat n m))"
  using assms by (auto simp: attempt_def Let_def)

lemma handle_calls_member:
  "c \<in> set calls \<Longrightarrow> set (fst (handle_call c)) \<subseteq> set (fst (handle_calls calls))"
  by (induction calls) auto

text \<open>
  Claim C6, as the code has it. For a \<open>create_ebook\<close> call whose arguments have a
  chapter list, the book passed to \<open>onEBookGenerated\<close> has the title, author,
  description, theme and format of the arguments and as many chapters, in the same order;
  chapter \<open>i\<close> carries the title and the image keyword of chapter \<open>i\<close> of the
  arguments and an empty content, and carries neither outline nor image URL.
\<close>

theorem C6_generated_book_chapters:
  assumes "chat n (UserMessage m) = Inr r" and "response_error r = None"
    and "resp_functionCalls r = Some calls" and "CreateEBook args cid \<in> set calls"
    and "bo_chapters args = Some chs"
  shows "\<exists>bookData cs.
      fst (handle_call (CreateEBook args cid)) =
        [EBookGenerated bookData, BackgroundStarted bookData bookData]
    \<and> EBookGenerated bookData \<in> set (trace (attempt chat n m))
    \<and> bo_title bookData = bo_title args \<and> bo_author bookData = bo_author args
    \<and> bo_description bookData = bo_description args
    \<and> bo_theme bookData = bo_theme args \<and> bo_format bookData = bo_format args
    \<and> bo_chapters bookData = Some cs \<and> length cs = length chs
    \<and> (\<forall>i<length chs.
          jc_title (cs ! i) = jc_title (chs ! i)
        \<and> jc_imageKeyword (cs ! i) = jc_imageKeyword (chs ! i)
        \<and> jc_content (cs ! i) = Some []
        \<and> jc_outline (cs ! i) = None \<and> jc_imageUrl (cs ! i) = None)"
proof -
  let ?b = "args\<lparr>bo_chapters := Some (map initial_chapter chs)\<rparr>"
  have evs: "fst (handle_call (CreateEBook args cid)) = [EBookGenerated ?b, BackgroundStarted ?b ?b]"
    using assms(5) by (simp add: Let_def)
  have "EBookGenerated ?b \<in> set (fst (handle_calls calls))"
    using handle_calls_member [OF assms(4)] evs by auto
  then have mem: "EBookGenerated ?b \<in> set (trace (attempt chat n m))"
    using in_attempt_trace [of chat n m r calls] assms(1-3) by auto
  show ?thesis
    using evs mem by (intro exI [of _ ?b] exI [of _ "map initial_chapter chs"])
      (simp add: initial_chapter_def)
qed

theorem C6_generated_book_chapters_witness:
  "generated_books (trace (sendMessage (always_responds book_response) ''hi'')) =
     [bk1\<lparr>bo_chapters := Some
        [\<lparr>jc_title = ''Intro'', jc_outline = None, jc_imageKeyword = ''map'',
          jc_content = Some [], jc_imageUrl = None\<rparr>,
         \<lparr>jc_title = ''Road'', jc_outline = None, jc_imageKeyword = ''road'',
          jc_content = Some [], jc_imageUrl = None\<rparr>]\<rparr>]
   \<and> (\<exists>bookData. EBookGenerated bookData
          \<in> set (trace (attempt (always_responds book_response) 0 ''hi'')))"
proof -
  have "generated_books (trace (sendMessage (always_responds book_response) ''hi'')) =
     [bk1\<lparr>bo_chapters := Some
        [\<lparr>jc_title = ''Intro'', jc_outline = None, jc_imageKeyword = ''map'',
          jc_content = Some [], jc_imageUrl = None\<rparr>,
         \<lparr>jc_title = ''Road'', jc_outline = None, jc_imageKeyword = ''road'',
          jc_content = Some [], jc_imageUrl = None\<rparr>]\<rparr>]"
    by code_simp
  moreover have "\<exists>bookData. EBookGenerated bookData
      \<in> set (trace (attempt (always_responds book_response) 0 ''hi''))"
    using C6_generated_book_chapters [of "always_responds book_response" 0 "''hi''"
        book_response "[CreateEBook bk1 (Some ''c1'')]" bk1 "Some ''c1''" "[ch1, ch2]"]
    by (auto simp: always_responds_def book_response_def response_error_def
        first_finishReason_def bk1_def)
  ultimately show ?thesis by simp
qed

text \<open>
  Claim C6 as stated fails: the chapters passed to \<open>onEBookGenerated\<close> do not carry the
  outlines of the call. For a call with two outlined chapters, both chapters of the book
  passed on have no outline.
\<close>

theorem C6_counterexample:
  "map (map_option (map jc_outline) \<circ> bo_chapters)
     (generated_books (trace (sendMessage (always_responds book_response) ''hi''))) =
     [Some [None, None]]
   \<and> resp_functionCalls book_response = Some [CreateEBook bk1 (Some ''c1'')]
   \<and> map_option (map jc_outline) (bo_chapters bk1) =
       Some [Some ''The hero leaves home.'', Some ''The hero meets a guide.'']"
  by code_simp

section \<open>The background task, chapter by chapter\<close>

lemma chapter_blocks_concat: "concat (chapter_blocks evs) = evs"
  by (induction evs) (auto split: list.splits)

lemma chapter_blocks_delivery:
  "\<forall>e \<in> set xs. \<not> is_delivery e \<Longrightarrow>
     chapter_blocks (xs @ ChapterEdited i c # rest) =
       (xs @ [ChapterEdited i c]) # chapter_blocks rest"
  by (induction xs) auto

lemma generateChapterContent_loop_no_delivery:
  "\<forall>e \<in> set (trace (generateChapterContent_loop api n p ch k)). \<not> is_delivery e"
proof (induction api n p ch k rule: generateChapterContent_loop.induct)
  case (1 api n p ch k)
  show ?case
  proof (cases "k < 3")
    case False
    then show ?thesis by (subst generateChapterContent_loop.simps) simp
  next
    case True
    show ?thesis
    proof (cases "api n p")
      case (Inr res)
      with True show ?thesis by (subst generateChapterContent_loop.simps) simp
    next
      case (Inl e)
      show ?thesis
      proof (cases "is_rate_limit e")
        case False
        with True Inl show ?thesis by (subst generateChapterContent_loop.simps) simp
      next
        case rl: True
        from "1.IH" [OF True Inl rl refl] True Inl rl show ?thesis
          by (subst generateChapterContent_loop.simps) (simp add: Let_def)
      qed
    qed
  qed
qed



lemma generateChapterContent_returns:
  "\<exists>s. outcome (generateChapterContent api n b ch) = Inr s"
  by (simp add: generateChapterContent_def generateChapterContent_loop_returns)

lemma generateChapterContent_no_delivery:
  "\<forall>e \<in> set (trace (generateChapterContent api n b ch)). \<not> is_delivery e"
  by (simp add: generateChapterContent_def generateChapterContent_loop_no_delivery)

lemma task_prepend_simps [simp]:
  "task_trace (task_prepend evs t) = evs @ task_trace t"
  "task_error (task_prepend evs t) = task_error t"
  "task_requests (task_prepend evs t) = task_requests t"
  by (simp_all add: task_prepend_def)

lemma background_loop_done:
  "bo_chapters b = Some chs \<Longrightarrow> \<not> i < length chs \<Longrightarrow>
     background_loop api n b args i = \<lparr>task_error = None, task_trace = [], task_requests = n\<rparr>"
  by (subst background_loop.simps) simp

lemma background_loop_step:
  assumes "bo_chapters b = Some chs" and "i < length chs"
    and "outcome (generateChapterContent api n b (chs ! i)) = Inr body"
  shows "background_loop api n b b i =
     task_prepend ((if i > 0 then [Wait 2000] else [])
                    @ trace (generateChapterContent api n b (chs ! i))
                    @ [ChapterEdited (int i) body])
       (background_loop api (requests (generateChapterContent api n b (chs ! i))) b b (i + 1))"
  using assms
  by (subst background_loop.simps) (simp add: Let_def arg_outline_def)

lemma background_loop_blocks:
  assumes b: "bo_chapters b = Some chs"
  shows "length chs - i = k \<Longrightarrow>
     task_error (background_loop api n b b i) = None
     \<and> length (chapter_blocks (task_trace (background_loop api n b b i))) = k
     \<and> (\<forall>j<k. chapter_block_ok api b (chs ! (i + j)) (i + j)
                 (chapter_blocks (task_trace (background_loop api n b b i)) ! j))"
proof (induction k arbitrary: i n)
  case 0
  then have "\<not> i < length chs" by simp
  from background_loop_done [OF b this] show ?case by simp
next
  case (Suc k)
  then have i: "i < length chs" by simp
  let ?g = "generateChapterContent api n b (chs ! i)"
  obtain body where body: "outcome ?g = Inr body"
    using generateChapterContent_returns by blast
  let ?pre = "(if i > 0 then [Wait 2000] else []) @ trace ?g"
  let ?rest = "background_loop api (requests ?g) b b (i + 1)"
  have nd: "\<forall>e \<in> set ?pre. \<not> is_delivery e"
    using generateChapterContent_no_delivery [of api n b "chs ! i"] by auto
  have step: "background_loop api n b b i = task_prepend (?pre @ [ChapterEdited (int i) body]) ?rest"
    using background_loop_step [OF b i body] by simp
  have blocks: "chapter_blocks (task_trace (background_loop api n b b i)) =
      (?pre @ [ChapterEdited (int i) body]) # chapter_blocks (task_trace ?rest)"
    using chapter_blocks_delivery [OF nd, of "int i" body "task_trace ?rest"]
    by (simp add: step)
  have IH: "task_error ?rest = None
     \<and> length (chapter_blocks (task_trace ?rest)) = k
     \<and> (\<forall>j<k. chapter_block_ok api b (chs ! (i + 1 + j)) (i + 1 + j)
                 (chapter_blocks (task_trace ?rest) ! j))"
    using Suc.IH [of "i + 1" "requests ?g"] Suc.prems by simp
  have first: "chapter_block_ok api b (chs ! i) i (?pre @ [ChapterEdited (int i) body])"
    unfolding chapter_block_ok_def using body by (intro exI [of _ n] exI [of _ body]) simp
  have all: "chapter_block_ok api b (chs ! (i + j)) (i + j)
      (chapter_blocks (task_trace (background_loop api n b b i)) ! j)" if "j < Suc k" for j
  proof (cases j)
    case 0
    with first blocks show ?thesis by simp
  next
    case (Suc j')
    with that IH have "chapter_block_ok api b (chs ! (i + 1 + j')) (i + 1 + j')
        (chapter_blocks (task_trace ?rest) ! j')" by simp
    with Suc blocks show ?thesis by simp
  qed
  have err: "task_error (background_loop api n b b i) = None"
    using IH by (simp add: step)
  have len: "length (chapter_blocks (task_trace (background_loop api n b b i))) = Suc k"
    unfolding blocks using IH by simp
  show ?case
    using err len all by blast
qed







text \<open>
  An observation on the outline. The closure reads \<open>args.chapters[i].outline\<close> after
  \<open>bookData.chapters\<close> has been replaced, and \<open>bookData\<close> is \<open>args\<close>: the rebuilt
  chapters have no outline, so every prompt of the background task is written with
  \<open>undefined\<close> in place of the outline.
\<close>

lemma generateChapterContent_loop_events:
  "e \<in> set (trace (generateChapterContent_loop api n p ch k)) \<Longrightarrow>
     e = GenerateContent p \<or> (\<exists>ms. e = Wait ms)"
proof (induction api n p ch k rule: generateChapterContent_loop.induct)
  case (1 api n p ch k)
  show ?case
  proof (cases "k < 3")
    case False
    with "1.prems" show ?thesis by (subst (asm) generateChapterContent_loop.simps) simp
  next
    case True
    show ?thesis
    proof (cases "api n p")
      case (Inr res)
      with True "1.prems" show ?thesis
        by (subst (asm) generateChapterContent_loop.simps) simp
    next
      case (Inl err)
      show ?thesis
      proof (cases "is_rate_limit err")
        case False
        with True Inl "1.prems" show ?thesis
          by (subst (asm) generateChapterContent_loop.simps) simp
      next
        case rl: True
        from "1.prems" True Inl rl
        have "e = GenerateContent p \<or> (\<exists>ms. e = Wait ms)
            \<or> e \<in> set (trace (generateChapterContent_loop api (Suc n) p ch (k + 1)))"
          by (subst (asm) generateChapterContent_loop.simps) (auto simp: Let_def)
        with "1.IH" [OF True Inl rl refl] show ?thesis by blast
      qed
    qed
  qed
qed

lemma background_prompt_outline_undefined:
  assumes "bo_chapters args = Some chs"
    and "GenerateContent p \<in> set (task_trace (background_generation api
           (args\<lparr>bo_chapters := Some (map initial_chapter chs)\<rparr>)
           (args\<lparr>bo_chapters := Some (map initial_chapter chs)\<rparr>)))"
  shows "p_outline p = ''undefined''"
proof -
  let ?bd = "args\<lparr>bo_chapters := Some (map initial_chapter chs)\<rparr>"
  let ?cs = "map initial_chapter chs"
  let ?blocks = "chapter_blocks (task_trace (background_generation api ?bd ?bd))"
  have cs: "bo_chapters ?bd = Some ?cs" by simp
  from background_loop_blocks [OF cs, of 0 "length chs" api 0]
  have len: "length ?blocks = length chs"
    and ok: "\<forall>j<length chs. chapter_block_ok api ?bd (?cs ! j) j (?blocks ! j)"
    by (simp_all add: background_generation_def)
  from assms(2) have "GenerateContent p \<in> set (concat ?blocks)"
    by (simp add: chapter_blocks_concat)
  then obtain blk where blk: "blk \<in> set ?blocks" "GenerateContent p \<in> set blk"
    by auto
  from blk(1) obtain j where j: "j < length ?blocks" and "?blocks ! j = blk"
    by (auto simp: in_set_conv_nth)
  with blk(2) have mem: "GenerateContent p \<in> set (?blocks ! j)"
    by simp
  from ok j len have "chapter_block_ok api ?bd (initial_chapter (chs ! j)) j (?blocks ! j)"
    by simp
  then obtain m body where
    "?blocks ! j = (if j > 0 then [Wait 2000] else [])
       @ trace (generateChapterContent api m ?bd (initial_chapter (chs ! j)))
       @ [ChapterEdited (int j) body]"
    unfolding chapter_block_ok_def by blast
  with mem have
    "GenerateContent p \<in> set (trace (generateChapterContent api m ?bd (initial_chapter (chs ! j))))"
    by (auto split: if_splits)
  from generateChapterContent_loop_events [OF this [unfolded generateChapterContent_def]]
  have "p = chapter_prompt ''gemini-1.5-flash'' ?bd (initial_chapter (chs ! j))" by simp
  then show ?thesis
    by (simp add: chapter_prompt_def initial_chapter_def interpolate_def)
qed

section \<open>The outline in the placeholder\<close>

text \<open>
  Claim C3 at a concrete run. The model answers with a \<open>create_ebook\<close> call whose two
  chapters have outlines. The handler starts the background task on the rebuilt book, held
  under both names \<open>bookData\<close> and \<open>args\<close>. When every generation request fails
  with a server error, the task does not throw and delivers the first placeholder for each
  chapter; when every request is rate-limited, it delivers the second. In both the
  placeholder says \<open>Outline: undefined\<close>: it does not contain the outline the model
  gave for the chapter.
\<close>

theorem C3_placeholder_loses_outline:
  "resp_functionCalls book_response = Some [CreateEBook bk1 (Some ''c1'')]
   \<and> map_option (map jc_outline) (bo_chapters bk1) =
       Some [Some ''The hero leaves home.'', Some ''The hero meets a guide.'']
   \<and> background_tasks (trace (sendMessage (always_responds book_response) ''hi'')) =
       [(rebuilt_bk1, rebuilt_bk1)]
   \<and> task_error (background_generation (gen_always_throws server_error)
         rebuilt_bk1 rebuilt_bk1) = None
   \<and> deliveries (task_trace (background_generation (gen_always_throws server_error)
         rebuilt_bk1 rebuilt_bk1)) =
       [(0, ''(Content generation failed. Outline: undefined)''),
        (1, ''(Content generation failed. Outline: undefined)'')]
   \<and> deliveries (task_trace (background_generation (gen_always_throws busy)
         rebuilt_bk1 rebuilt_bk1)) =
       [(0, ''(Content generation failed after retries. Outline: undefined)''),
        (1, ''(Content generation failed after retries. Outline: undefined)'')]
   \<and> outcome (generateChapterContent_single (gen_always_throws server_error) 0 rebuilt_bk1
         (initial_chapter ch1)) =
       Inr ''(Content generation failed. Outline: undefined)''"
  by code_simp

section \<open>Accepting a credential\<close>

text \<open>
  Claim C4. For a key that is not blank, a validation request that succeeds, and one that
  fails with an error whose text (compared in lower case) contains \<open>429\<close> or
  \<open>quota\<close>, both end with status \<open>valid\<close> and, when the timer fires, with
  \<open>onSave\<close> called on the trimmed key and \<open>onClose\<close>; any other failure ends with
  status \<open>error\<close> and no callback at all.
\<close>

theorem C4_validateAndSave:
  assumes "trim (m_key st) \<noteq> []"
  shows "(validate (trim (m_key st)) = None
          \<or> (\<exists>e. validate (trim (m_key st)) = Some e
                \<and> (str_includes (toLowerCase (error_toString e)) ''429''
                     \<or> str_includes (toLowerCase (error_toString e)) ''quota''))
         \<longrightarrow> m_status (state_after st (validateAndSave validate st)) = Valid
             \<and> callbacks_fired (validateAndSave validate st) = [OnSave (trim (m_key st)), OnClose])
       \<and> ((\<exists>e. validate (trim (m_key st)) = Some e
                \<and> \<not> str_includes (toLowerCase (error_toString e)) ''429''
                \<and> \<not> str_includes (toLowerCase (error_toString e)) ''quota'')
         \<longrightarrow> m_status (state_after st (validateAndSave validate st)) = Error
             \<and> callbacks_fired (validateAndSave validate st) = [])"
  using assms
  by (auto simp: validateAndSave_def state_after_def Let_def split: option.splits)

theorem C4_validateAndSave_witness:
  "trim (m_key typed_key) = ''AIza-123''
   \<and> m_status (state_after typed_key (validateAndSave (rejects_with quota_error) typed_key)) = Valid
   \<and> callbacks_fired (validateAndSave (rejects_with quota_error) typed_key) =
        [OnSave ''AIza-123'', OnClose]
   \<and> m_status (state_after typed_key (validateAndSave (rejects_with forbidden) typed_key)) = Error
   \<and> callbacks_fired (validateAndSave (rejects_with forbidden) typed_key) = []"
proof -
  have k: "trim (m_key typed_key) = ''AIza-123''"
    by (simp add: typed_key_def trim_def is_space_def)
  have q: "str_includes (toLowerCase (error_toString quota_error)) ''quota''"
    by (simp add: quota_error_def error_toString_def toLowerCase_def lower_char_def)
  have f: "\<not> str_includes (toLowerCase (error_toString forbidden)) ''429''"
    "\<not> str_includes (toLowerCase (error_toString forbidden)) ''quota''"
    by (simp_all add: forbidden_def error_toString_def toLowerCase_def lower_char_def)
  from C4_validateAndSave [of typed_key "rejects_with quota_error"] k q
  have a: "m_status (state_after typed_key (validateAndSave (rejects_with quota_error) typed_key))
      = Valid \<and> callbacks_fired (validateAndSave (rejects_with quota_error) typed_key) =
        [OnSave ''AIza-123'', OnClose]"
    by (auto simp: rejects_with_def)
  from C4_validateAndSave [of typed_key "rejects_with forbidden"] k f
  have b: "m_status (state_after typed_key (validateAndSave (rejects_with forbidden) typed_key))
      = Error \<and> callbacks_fired (validateAndSave (rejects_with forbidden) typed_key) = []"
    by (auto simp: rejects_with_def)
  from k a b show ?thesis by simp
qed

section \<open>Saving, reopening and loading\<close>

text \<open>
  A book survives the serialisation unchanged, and loading a project in the session in which
  it was saved gives back the very book and messages that were saved.
\<close>

lemma roundtrip_Chapter:
  "JSON_stringify (val_of_Chapter c) = Some j \<Longrightarrow> JSON_parse j = val_of_Chapter c"
  by (cases "imageUrl c") (auto simp: val_of_Chapter_def optional_def)

lemma stringify_Chapter: "\<exists>j. JSON_stringify (val_of_Chapter c) = Some j"
  by (simp add: val_of_Chapter_def)

lemma roundtrip_Chapters:
  "map (JSON_parse \<circ> (\<lambda>x. case JSON_stringify x of None \<Rightarrow> JNull | Some j \<Rightarrow> j))
     (map val_of_Chapter cs) = map val_of_Chapter cs"
proof (induction cs)
  case Nil
  then show ?case by simp
next
  case (Cons c cs)
  obtain j where j: "JSON_stringify (val_of_Chapter c) = Some j"
    using stringify_Chapter by blast
  with roundtrip_Chapter [OF j] Cons show ?case by simp
qed

lemma roundtrip_EBook:
  "\<exists>j. JSON_stringify (val_of_EBook b) = Some j \<and> JSON_parse j = val_of_EBook b"
  using roundtrip_Chapters [of "chapters b"]
  by (simp add: val_of_EBook_def comp_def)

lemma roundtrip_Message:
  "\<exists>j. JSON_stringify (val_of_Message m) = Some j
     \<and> JSON_parse j =
         VObj ([(''id'', VStr (msg_id m)), (''text'', VStr (msg_text m)),
                (''sender'', val_of_Sender (sender m)),
                (''timestamp'', VStr (toISOString (timestamp m)))]
               @ optional ''isThinking'' (map_option VBool (isThinking m)))"
  by (cases "isThinking m"; cases "sender m")
    (simp_all add: val_of_Message_def val_of_Sender_def optional_def)

lemma load_in_session:
  assumes "\<not> falsy (generatedBook st)"
  shows "generatedBook (onLoadProject (first_project (savedProjects (handleSaveProject now st)))
           (handleSaveProject now st)) = generatedBook st
       \<and> messages (onLoadProject (first_project (savedProjects (handleSaveProject now st)))
           (handleSaveProject now st)) = messages st"
  using assms
  by (simp add: handleSaveProject_def onLoadProject_def Let_def spread_def get_prop_def
      first_project_def)

text \<open>
  Claim C5 at a concrete state. A project is saved, the project list is written to storage,
  the application is opened again and the project is loaded: the book is the saved book, but
  the message list is not the saved one, because \<open>JSON.stringify\<close> writes each
  \<open>timestamp\<close> as an ISO string and \<open>JSON.parse\<close> does not turn it back into a
  \<open>Date\<close>.
\<close>

theorem C5_reloaded_timestamps_are_strings:
  "generatedBook saved_and_reloaded = generatedBook working_state
   \<and> messages working_state =
       VArr [VObj [(''id'', VStr ''welcome''), (''text'', VStr ''Hello!''),
                   (''sender'', VStr ''model''), (''timestamp'', VDate 0)]]
   \<and> messages saved_and_reloaded =
       VArr [VObj [(''id'', VStr ''welcome''), (''text'', VStr ''Hello!''),
                   (''sender'', VStr ''model''),
                   (''timestamp'', VStr ''1970-01-01T00:00:00.000Z'')]]
   \<and> messages saved_and_reloaded \<noteq> messages working_state"
  by code_simp

section \<open>Navigation stays between the cover and the last chapter\<close>

lemma nextChapter_range:
  "- 1 \<le> c \<Longrightarrow> c \<le> int len - 1 \<Longrightarrow>
     - 1 \<le> nextChapter len c \<and> nextChapter len c \<le> int len - 1"
  by (simp add: nextChapter_def)

lemma prevChapter_range:
  "- 1 \<le> c \<Longrightarrow> c \<le> int len - 1 \<Longrightarrow>
     - 1 \<le> prevChapter len c \<and> prevChapter len c \<le> int len - 1"
  by (simp add: prevChapter_def)

lemma navigate_range:
  "- 1 \<le> c \<Longrightarrow> c \<le> int len - 1 \<Longrightarrow>
     - 1 \<le> navigate len a c \<and> navigate len a c \<le> int len - 1"
  using nextChapter_range [of c len] prevChapter_range [of c len] by (cases a) simp_all

lemma navigate_all_range:
  "- 1 \<le> c \<Longrightarrow> c \<le> int len - 1 \<Longrightarrow>
     - 1 \<le> navigate_all len as c \<and> navigate_all len as c \<le> int len - 1"
proof (induction as arbitrary: c)
  case Nil
  then show ?case by simp
next
  case (Cons a as)
  from navigate_range [OF Cons.prems] Cons.IH show ?case by simp
qed

text \<open>
  Claim C10. The current-chapter index starts at \<open>-1\<close>; after any sequence of
  \<open>nextChapter\<close> and \<open>prevChapter\<close> calls it lies between \<open>-1\<close> and
  \<open>chapters.length - 1\<close>; \<open>nextChapter\<close> does nothing at the last chapter and
  \<open>prevChapter\<close> does nothing at the cover.
\<close>

theorem C10_navigation_in_range:
  "initialChapter = - 1
   \<and> - 1 \<le> navigate_all len as initialChapter
   \<and> navigate_all len as initialChapter \<le> int len - 1
   \<and> nextChapter len (int len - 1) = int len - 1
   \<and> prevChapter len (- 1) = - 1"
proof -
  have "- 1 \<le> initialChapter" "initialChapter \<le> int len - 1"
    by (simp_all add: initialChapter_def)
  from navigate_all_range [OF this] show ?thesis
    by (simp add: initialChapter_def nextChapter_def prevChapter_def)
qed

section \<open>The chapter-edit callback changes one content field\<close>

lemma edit_out_of_bounds:
  "\<not> in_bounds (chapters b) i \<Longrightarrow> onChapterEdited_update i c (Some b) = Some b"
  by (simp add: onChapterEdited_update_def)

lemma edit_in_bounds:
  "in_bounds (chapters b) i \<Longrightarrow>
     onChapterEdited_update i c (Some b) =
       Some (b\<lparr>chapters := (chapters b)[nat i := (chapters b ! nat i)\<lparr>content := c\<rparr>]\<rparr>)"
  by (simp add: onChapterEdited_update_def Let_def)

text \<open>
  Claim C9. The chapter-edit callback keeps a null book null; on a book it changes nothing
  but the content of chapter \<open>i\<close>: the book's title, author, description, theme and format,
  the number of chapters, every other chapter, and the title, image keyword and image URL of
  chapter \<open>i\<close> are as before, and with \<open>i\<close> out of bounds the book is unchanged.
\<close>

theorem C9_chapter_edit_frame:
  fixes b :: EBook
  shows "onChapterEdited_update i c None = None
   \<and> (\<exists>b'. onChapterEdited_update i c (Some b) = Some b'
        \<and> book_title b' = book_title b \<and> author b' = author b
        \<and> description b' = description b \<and> theme b' = theme b \<and> format b' = format b
        \<and> length (chapters b') = length (chapters b)
        \<and> (\<forall>j < length (chapters b). int j \<noteq> i \<longrightarrow> chapters b' ! j = chapters b ! j)
        \<and> (in_bounds (chapters b) i \<longrightarrow>
              content (chapters b' ! nat i) = c
              \<and> title (chapters b' ! nat i) = title (chapters b ! nat i)
              \<and> imageKeyword (chapters b' ! nat i) = imageKeyword (chapters b ! nat i)
              \<and> imageUrl (chapters b' ! nat i) = imageUrl (chapters b ! nat i)
              \<and> chapters b' ! nat i = (chapters b ! nat i)\<lparr>content := c\<rparr>)
        \<and> (\<not> in_bounds (chapters b) i \<longrightarrow> b' = b))"
proof (cases "in_bounds (chapters b) i")
  case True
  then have i: "0 \<le> i" "nat i < length (chapters b)"
    by (auto simp: in_bounds_def)
  have other: "\<forall>j < length (chapters b). int j \<noteq> i \<longrightarrow>
      (chapters b)[nat i := (chapters b ! nat i)\<lparr>content := c\<rparr>] ! j = chapters b ! j"
    using i by (auto simp: nth_list_update)
  show ?thesis
    using True i other
    by (simp add: edit_in_bounds onChapterEdited_update_def [of i c None])
next
  case False
  then show ?thesis
    by (simp add: edit_out_of_bounds onChapterEdited_update_def [of i c None])
qed

theorem C9_chapter_edit_frame_witness:
  "in_bounds (chapters sample_book) 1
   \<and> onChapterEdited_update 1 ''new'' (Some sample_book) =
       Some (sample_book\<lparr>chapters :=
         [\<lparr>title = ''One'', content = [], imageKeyword = ''map'', imageUrl = None\<rparr>,
          \<lparr>title = ''Two'', content = ''new'', imageKeyword = ''chart'',
           imageUrl = Some ''data:x''\<rparr>]\<rparr>)
   \<and> \<not> in_bounds (chapters sample_book) 2
   \<and> onChapterEdited_update 2 ''new'' (Some sample_book) = Some sample_book
   \<and> onChapterEdited_update (- 1) ''new'' (Some sample_book) = Some sample_book"
  using C9_chapter_edit_frame [of 1 "''new''" sample_book]
    C9_chapter_edit_frame [of 2 "''new''" sample_book]
    C9_chapter_edit_frame [of "- 1" "''new''" sample_book]
  by (simp add: onChapterEdited_update_def in_bounds_def sample_book_def sample_chapters_def
      Let_def)

end
